theory Spec2Isabelle
  imports Main
begin

section \<open>Data model\<close>

text \<open>
  The runtime is embedded as functions on an explicit \<open>world\<close>: the objects the C++ code
  reaches through pointers (component implementations, timer managers, timer facades) live
  in stores indexed by address, so that aliasing through \<open>shared_ptr\<close>, \<open>weak_ptr\<close> and
  captured \<open>this\<close> pointers is what it is in the source.
\<close>

type_synonym thread_id = nat
type_synonym comp_ref = nat
type_synonym tm_ref = nat
type_synonym timer_ref = nat
type_synonym job_id = nat

text \<open>User closures (\<open>std::function\<close> objects) are named by a number; what a closure does
  when it is called is given by the environment, see \<open>env\<close> below.\<close>

type_synonym closure = nat

text \<open>What a C++ \<open>throw\<close> may carry: \<open>std::bad_alloc\<close>, any other \<open>std::exception\<close> with
  its \<open>what()\<close> text, or an object that does not derive from \<open>std::exception\<close>.\<close>

datatype exc = BadAlloc | StdException string | NonStdException nat

fun what :: "exc \<Rightarrow> string" where
  "what BadAlloc = ''std::bad_alloc''"
| "what (StdException s) = s"
| "what (NonStdException n) = []"

fun is_bad_alloc :: "exc \<Rightarrow> bool" where
  "is_bad_alloc BadAlloc = True"
| "is_bad_alloc (StdException s) = False"
| "is_bad_alloc (NonStdException n) = False"

fun is_std_exception :: "exc \<Rightarrow> bool" where
  "is_std_exception BadAlloc = True"
| "is_std_exception (StdException s) = True"
| "is_std_exception (NonStdException n) = False"

text \<open>\<open>MessageBase::Type\<close>: the identity of a concrete message class.\<close>

datatype msg_type = TimeoutMessage | CallbackExcMsg | UserMessage string

fun type_name :: "msg_type \<Rightarrow> string" where
  "type_name TimeoutMessage = ''TimeoutMessage''"
| "type_name CallbackExcMsg = ''CallbackExcMsg''"
| "type_name (UserMessage n) = n"

text \<open>Messages: the two built-in classes of \<open>BasicMessages.h\<close> with their fields, and
  application messages (class name and payload). A \<open>std::function\<close> field may be empty.\<close>

datatype message =
    TimeoutMsg job_id "closure option"
  | CallbackMsg "closure option"
  | UserMsg string nat

fun idof :: "message \<Rightarrow> msg_type" where
  "idof (TimeoutMsg i cb) = TimeoutMessage"
| "idof (CallbackMsg cb) = CallbackExcMsg"
| "idof (UserMsg n p) = UserMessage n"

text \<open>The function objects stored in the handler map: the two lambdas of the
  \<open>ComponentImpl\<close> constructor, a user callable, and the lambda that wraps a
  \<open>MessageHandler*\<close>.\<close>

datatype handler = TimeoutHandler | CallbackExcHandler | HandlerFunc closure | HandlerObject nat

datatype level = Err | Warn | Info

text \<open>The trace records, in order, the log lines written by \<open>mafErr\<close>, \<open>mafWarn\<close>,
  \<open>mafInfo\<close>, the lifecycle calls made on collaborators, and the effects user code chooses
  to make visible.\<close>

datatype event =
    Log level string
  | QueueClose comp_ref
  | TimerMgrStop tm_ref
  | ThreadJoin thread_id
  | Effect nat

record msg_queue =
  items :: "message option list"
  closed :: bool

text \<open>The callbacks handed to a timer manager are the \<open>onTimeout\<close> lambdas of
  \<open>Timer::start\<close>; a lambda is its captures: \<open>componentRef\<close>, \<open>callback\<close>, \<open>this\<close>.\<close>

datatype job_callback = OnTimeout "comp_ref option" closure timer_ref

record job =
  duration :: nat
  job_cyclic :: bool
  job_callback :: job_callback

record timer_manager =
  jobs :: "job_id \<rightharpoonup> job"
  next_id :: job_id
  terminated :: bool

text \<open>The \<open>std::thread\<close> member of a component while it is joinable: the id of the thread
  and the exit hook captured by the thread's function, which runs \<open>startMessageLoop\<close>.\<close>

record worker =
  w_tid :: thread_id
  w_onExit :: "closure option"

record component_impl =
  compref :: "comp_ref option"
  workerThread :: "worker option"
  msgQueue :: msg_queue
  msgHandlers :: "msg_type \<rightharpoonup> handler"
  timerMgr :: "tm_ref option"

record timer =
  t_id :: job_id
  t_cyclic :: bool
  t_myMgr :: "tm_ref option"

record world =
  tlwpInstance :: "thread_id \<Rightarrow> comp_ref option"
  alive :: "comp_ref \<Rightarrow> bool"
  impls :: "comp_ref \<Rightarrow> component_impl"
  tmgrs :: "tm_ref \<Rightarrow> timer_manager"
  tm_alloc :: tm_ref
  timers :: "timer_ref \<Rightarrow> timer"
  trace :: "event list"

text \<open>A statement either completes or throws; in both cases it leaves a world behind.\<close>

type_synonym action = "world \<Rightarrow> exc option \<times> world"

section \<open>Handler registry\<close>

text \<open>\<open>std::map::insert\<close>: the pair is stored only when the key is not yet present.\<close>

definition map_insert :: "'k \<Rightarrow> 'v \<Rightarrow> ('k \<rightharpoonup> 'v) \<Rightarrow> ('k \<rightharpoonup> 'v)" where
  "map_insert k v m = (case m k of None \<Rightarrow> m(k \<mapsto> v) | Some old \<Rightarrow> m)"

text \<open>\<open>registerMessageHandler(msgType, onMessageFunc)\<close>: an empty function object is
  ignored.\<close>

definition registerMessageHandler ::
  "comp_ref \<Rightarrow> msg_type \<Rightarrow> handler option \<Rightarrow> world \<Rightarrow> world" where
  "registerMessageHandler this msgType onMessageFunc w =
     (case onMessageFunc of
        None \<Rightarrow> w
      | Some f \<Rightarrow>
          w\<lparr>impls := (impls w)(this := (impls w this)
               \<lparr>msgHandlers := map_insert msgType f (msgHandlers (impls w this))\<rparr>)\<rparr>)"

text \<open>\<open>registerMessageHandler(msgType, MessageHandler* handler)\<close>: a null pointer is
  ignored, anything else is wrapped in a lambda and registered.\<close>

definition registerMessageHandlerObject ::
  "comp_ref \<Rightarrow> msg_type \<Rightarrow> nat option \<Rightarrow> world \<Rightarrow> world" where
  "registerMessageHandlerObject this msgType handler w =
     (case handler of
        None \<Rightarrow> w
      | Some h \<Rightarrow> registerMessageHandler this msgType (Some (HandlerObject h)) w)"

text \<open>The members of a freshly constructed \<open>ComponentImpl\<close>.\<close>

definition new_impl :: component_impl where
  "new_impl = \<lparr>compref = None, workerThread = None,
               msgQueue = \<lparr>items = [], closed = False\<rparr>,
               msgHandlers = Map.empty, timerMgr = None\<rparr>"

text \<open>The constructor \<open>ComponentImpl::ComponentImpl()\<close>.\<close>

definition ComponentImpl :: "comp_ref \<Rightarrow> world \<Rightarrow> world" where
  "ComponentImpl this w =
     registerMessageHandler this CallbackExcMsg (Some CallbackExcHandler)
       (registerMessageHandler this TimeoutMessage (Some TimeoutHandler)
          (w\<lparr>impls := (impls w)(this := new_impl)\<rparr>))"

text \<open>The lookup of the message loop: \<open>_msgHandlers->find(type)\<close>, an empty function when
  the key is absent.\<close>

definition findHandler :: "comp_ref \<Rightarrow> msg_type \<Rightarrow> world \<Rightarrow> handler option" where
  "findHandler this msgType w = msgHandlers (impls w this) msgType"

text \<open>A sequence of registrations, each by either overload, applied in order.\<close>

datatype registration = ByFunc msg_type "handler option" | ByObject msg_type "nat option"

fun register_one :: "comp_ref \<Rightarrow> registration \<Rightarrow> world \<Rightarrow> world" where
  "register_one this (ByFunc t f) w = registerMessageHandler this t f w"
| "register_one this (ByObject t h) w = registerMessageHandlerObject this t h w"

fun register_all :: "comp_ref \<Rightarrow> registration list \<Rightarrow> world \<Rightarrow> world" where
  "register_all this [] w = w"
| "register_all this (r # rs) w = register_all this rs (register_one this r w)"

section \<open>Logging and exceptions\<close>

text \<open>\<open>mafErr\<close>, \<open>mafWarn\<close>, \<open>mafInfo\<close> write one line to the log.\<close>

definition mafErr :: "string \<Rightarrow> world \<Rightarrow> world" where
  "mafErr text w = w\<lparr>trace := trace w @ [Log Err text]\<rparr>"

definition mafWarn :: "string \<Rightarrow> world \<Rightarrow> world" where
  "mafWarn text w = w\<lparr>trace := trace w @ [Log Warn text]\<rparr>"

definition mafInfo :: "string \<Rightarrow> world \<Rightarrow> world" where
  "mafInfo text w = w\<lparr>trace := trace w @ [Log Info text]\<rparr>"

text \<open>A \<open>try\<close> block with its \<open>catch\<close> clauses, in source order: each clause is the test
  "does this clause's type match the thrown object" and the clause's body. The first
  matching clause runs; when none matches, the exception leaves the block.\<close>

type_synonym catch_clause = "(exc \<Rightarrow> bool) \<times> (exc \<Rightarrow> action)"

fun select_clause :: "exc \<Rightarrow> catch_clause list \<Rightarrow> (exc \<Rightarrow> action) option" where
  "select_clause e [] = None"
| "select_clause e (c # cs) = (if fst c e then Some (snd c) else select_clause e cs)"

definition try_catch :: "action \<Rightarrow> catch_clause list \<Rightarrow> action" where
  "try_catch body clauses w =
     (case body w of
        (None, w') \<Rightarrow> (None, w')
      | (Some e, w') \<Rightarrow>
          (case select_clause e clauses of
             None \<Rightarrow> (Some e, w')
           | Some clause \<Rightarrow> clause e w'))"

text \<open>\<open>catch(...)\<close> matches every thrown object.\<close>

definition catch_all :: "exc \<Rightarrow> bool" where
  "catch_all e = True"

section \<open>Message queue\<close>

text \<open>
  Modelled from the spec: \<open>MessageQueue.h\<close> is not among the sources. The queue is an
  ordered sequence with the states Open and Closed. \<open>push\<close> enqueues at the tail, is
  rejected once the queue is closed, and reports an internal failure to the caller without
  touching the queue; whether and how it fails is the environment's choice, the argument
  \<open>fault\<close>. \<open>wait\<close> pops the head and returns true, returns false when the queue is closed
  and empty, and blocks otherwise. \<open>close\<close> moves to Closed and is idempotent. A queued
  message pointer may be null.
\<close>

definition MessageQueue_push ::
  "exc option \<Rightarrow> message option \<Rightarrow> msg_queue \<Rightarrow> exc + msg_queue" where
  "MessageQueue_push fault msg q =
     (case fault of
        Some e \<Rightarrow> Inl e
      | None \<Rightarrow> if closed q then Inr q else Inr (q\<lparr>items := items q @ [msg]\<rparr>))"

datatype wait_result = WaitTrue "message option" msg_queue | WaitFalse | WaitBlocks

definition MessageQueue_wait :: "msg_queue \<Rightarrow> wait_result" where
  "MessageQueue_wait q =
     (case items q of
        msg # rest \<Rightarrow> WaitTrue msg (q\<lparr>items := rest\<rparr>)
      | [] \<Rightarrow> if closed q then WaitFalse else WaitBlocks)"

definition MessageQueue_close :: "msg_queue \<Rightarrow> msg_queue" where
  "MessageQueue_close q = q\<lparr>closed := True\<rparr>"

section \<open>Timer manager\<close>

text \<open>
  Modelled from the spec: \<open>TimerManager.h\<close> is not among the sources. A manager holds
  jobs \<open>{id, duration, cyclic, callback}\<close> with ids drawn from a monotonic counter; id 0
  means "no job". \<open>start\<close> registers a job under a fresh id; \<open>stop(id)\<close> cancels the job if
  present; \<open>restart(id)\<close> re-arms an existing job (the schedule keeps the same jobs);
  \<open>setCyclic(id, c)\<close> flips the cyclicity of an existing job; \<open>isRunning(id)\<close> holds iff a
  job with that id is scheduled; \<open>stop()\<close> terminates the manager and cancels all jobs,
  and every later operation is a no-op.
\<close>

definition invalidJobID :: job_id where
  "invalidJobID = 0"

definition TimerManager_new :: timer_manager where
  "TimerManager_new = \<lparr>jobs = Map.empty, next_id = 1, terminated = False\<rparr>"

definition TimerManager_start ::
  "nat \<Rightarrow> job_callback \<Rightarrow> bool \<Rightarrow> timer_manager \<Rightarrow> job_id \<times> timer_manager" where
  "TimerManager_start d cb cyc tm =
     (if terminated tm then (invalidJobID, tm)
      else (next_id tm,
            tm\<lparr>jobs := (jobs tm)(next_id tm \<mapsto>
                    \<lparr>duration = d, job_cyclic = cyc, job_callback = cb\<rparr>),
               next_id := Suc (next_id tm)\<rparr>))"

definition TimerManager_stop_job :: "job_id \<Rightarrow> timer_manager \<Rightarrow> timer_manager" where
  "TimerManager_stop_job i tm =
     (if terminated tm then tm else tm\<lparr>jobs := (jobs tm)(i := None)\<rparr>)"

definition TimerManager_restart :: "job_id \<Rightarrow> timer_manager \<Rightarrow> timer_manager" where
  "TimerManager_restart i tm = tm"

definition TimerManager_setCyclic :: "job_id \<Rightarrow> bool \<Rightarrow> timer_manager \<Rightarrow> timer_manager" where
  "TimerManager_setCyclic i cyc tm =
     (if terminated tm then tm
      else case jobs tm i of
             None \<Rightarrow> tm
           | Some j \<Rightarrow> tm\<lparr>jobs := (jobs tm)(i \<mapsto> j\<lparr>job_cyclic := cyc\<rparr>)\<rparr>)"

definition isRunning :: "job_id \<Rightarrow> timer_manager \<Rightarrow> bool" where
  "isRunning i tm = (case jobs tm i of None \<Rightarrow> False | Some j \<Rightarrow> True)"

definition TimerManager_stop :: "timer_manager \<Rightarrow> timer_manager" where
  "TimerManager_stop tm = tm\<lparr>jobs := Map.empty, terminated := True\<rparr>"

section \<open>Component\<close>

text \<open>\<open>weak_ptr::lock\<close>: an empty handle, or a handle to a component that no
  \<open>shared_ptr\<close> owns any more, does not upgrade.\<close>

definition lock :: "comp_ref option \<Rightarrow> world \<Rightarrow> comp_ref option" where
  "lock r w = (case r of None \<Rightarrow> None | Some c \<Rightarrow> if alive w c then Some c else None)"

text \<open>The calls \<open>_msgQueue.close()\<close>, \<open>_timerMgr->stop()\<close> and \<open>_timerMgr.reset()\<close> of
  \<open>ComponentImpl::stop\<close>, which is defined after the message loop.\<close>

definition close_queue :: "comp_ref \<Rightarrow> world \<Rightarrow> world" where
  "close_queue this w =
     w\<lparr>impls := (impls w)(this := (impls w this)
          \<lparr>msgQueue := MessageQueue_close (msgQueue (impls w this))\<rparr>),
       trace := trace w @ [QueueClose this]\<rparr>"

definition stop_manager :: "tm_ref \<Rightarrow> world \<Rightarrow> world" where
  "stop_manager m w =
     w\<lparr>tmgrs := (tmgrs w)(m := TimerManager_stop (tmgrs w m)),
       trace := trace w @ [TimerMgrStop m]\<rparr>"

definition reset_timerMgr :: "comp_ref \<Rightarrow> world \<Rightarrow> world" where
  "reset_timerMgr this w = w\<lparr>impls := (impls w)(this := (impls w this)\<lparr>timerMgr := None\<rparr>)\<rparr>"

text \<open>\<open>ComponentImpl::postMessage\<close>.\<close>

definition queue_push :: "exc option \<Rightarrow> comp_ref \<Rightarrow> message option \<Rightarrow> action" where
  "queue_push fault this msg w =
     (case MessageQueue_push fault msg (msgQueue (impls w this)) of
        Inl e \<Rightarrow> (Some e, w)
      | Inr q \<Rightarrow> (None, w\<lparr>impls := (impls w)(this := (impls w this)\<lparr>msgQueue := q\<rparr>)\<rparr>))"

definition postMessage :: "exc option \<Rightarrow> comp_ref \<Rightarrow> message option \<Rightarrow> action" where
  "postMessage fault this msg =
     try_catch (queue_push fault this msg)
       [(is_bad_alloc, \<lambda>ba w. (None, mafErr (''Queue overflow: '' @ what ba) w)),
        (is_std_exception,
           \<lambda>e w. (None, mafErr (''Exception occurred when pushing data to queue: '' @ what e) w)),
        (catch_all,
           \<lambda>e w. (None, mafErr ''Unkown exception occurred when pushing data to queue!'' w))]"

text \<open>\<open>ComponentImpl::getTimerManager\<close>: the manager is created on first use;
  \<open>make_shared\<close> takes the next free address.\<close>

definition getTimerManager :: "comp_ref \<Rightarrow> world \<Rightarrow> tm_ref option \<times> world" where
  "getTimerManager this w =
     (case timerMgr (impls w this) of
        Some m \<Rightarrow> (Some m, w)
      | None \<Rightarrow>
          (Some (tm_alloc w),
           w\<lparr>tmgrs := (tmgrs w)(tm_alloc w := TimerManager_new),
             tm_alloc := Suc (tm_alloc w),
             impls := (impls w)(this := (impls w this)\<lparr>timerMgr := Some (tm_alloc w)\<rparr>)\<rparr>))"

text \<open>The static \<open>Component::getTimerManager\<close>, called on the thread \<open>self\<close>.\<close>

definition Component_getTimerManager :: "thread_id \<Rightarrow> world \<Rightarrow> tm_ref option \<times> world" where
  "Component_getTimerManager self w =
     (case lock (tlwpInstance w self) w of
        Some spInstance \<Rightarrow> getTimerManager spInstance w
      | None \<Rightarrow> (None, w))"

definition getActiveWeakPtr :: "thread_id \<Rightarrow> world \<Rightarrow> comp_ref option" where
  "getActiveWeakPtr self w = tlwpInstance w self"

section \<open>The message loop\<close>

text \<open>What user code does when it is called: a callable registered as a handler, the
  \<open>onMessage\<close> of a handler object, a \<open>void()\<close> callback. Each may change the world in any
  way and may throw.\<close>

record env =
  onMessageFunc :: "closure \<Rightarrow> message \<Rightarrow> action"
  onMessage :: "nat \<Rightarrow> message \<Rightarrow> action"
  callFn :: "closure \<Rightarrow> action"

text \<open>
  Modelled from the spec: \<open>BasicMessages.h\<close> is not among the sources. \<open>execute()\<close> of a
  \<open>TimeoutMessage\<close> or \<open>CallbackExcMsg\<close> calls the message's callback; calling an empty
  \<open>std::function\<close> throws \<open>std::bad_function_call\<close>.
\<close>

definition execute :: "env \<Rightarrow> closure option \<Rightarrow> action" where
  "execute en cb w =
     (case cb of
        None \<Rightarrow> (Some (StdException ''bad_function_call''), w)
      | Some c \<Rightarrow> callFn en c w)"

text \<open>Calling a stored handler with a message. The two constructor lambdas are stored
  under their own message type only, so they only ever see messages of that class.\<close>

fun invoke :: "env \<Rightarrow> handler \<Rightarrow> message \<Rightarrow> action" where
  "invoke en TimeoutHandler (TimeoutMsg i cb) = execute en cb"
| "invoke en TimeoutHandler msg = (\<lambda>w. (None, w))"
| "invoke en CallbackExcHandler (CallbackMsg cb) = execute en cb"
| "invoke en CallbackExcHandler msg = (\<lambda>w. (None, w))"
| "invoke en (HandlerFunc f) msg = onMessageFunc en f msg"
| "invoke en (HandlerObject h) msg = onMessage en h msg"

text \<open>The body of the \<open>while\<close> loop of \<open>startMessageLoop\<close>, for one popped message.\<close>

definition no_handler_text :: "message \<Rightarrow> string" where
  "no_handler_text m =
     ''There'' @ [CHR 0x27] @ ''s no handler for message '' @ type_name (idof m)"

definition dispatch :: "env \<Rightarrow> comp_ref \<Rightarrow> message option \<Rightarrow> action" where
  "dispatch en this msg w =
     (case msg of
        None \<Rightarrow> (None, mafErr ''Got nullptr message'' w)
      | Some m \<Rightarrow>
          (case findHandler this (idof m) w of
             Some handlerFunc \<Rightarrow>
               try_catch (invoke en handlerFunc m)
                 [(is_std_exception,
                     \<lambda>e w'. (None, mafErr
                        (''Exception occurred while executing messageHandler function: ''
                           @ what e) w')),
                  (catch_all,
                     \<lambda>e w'. (None, mafErr
                        ''Unknown exception occurred while executing messageHandler function: ''
                        w'))] w
           | None \<Rightarrow> (None, mafWarn (no_handler_text m) w)))"

text \<open>How a run of the loop ends: the loop was left and the function returned, an
  exception left the function, or the thread is blocked in \<open>wait\<close> on an open, empty
  queue.\<close>

datatype loop_result = Exited world | Threw exc world | Waiting world

definition set_queue :: "comp_ref \<Rightarrow> msg_queue \<Rightarrow> world \<Rightarrow> world" where
  "set_queue this q w = w\<lparr>impls := (impls w)(this := (impls w this)\<lparr>msgQueue := q\<rparr>)\<rparr>"

text \<open>\<open>while(_msgQueue.wait(msg)) { ... }\<close>: the first argument bounds the number of
  calls of \<open>wait\<close>; \<open>None\<close> means the bound was reached.\<close>

fun messageLoop :: "nat \<Rightarrow> env \<Rightarrow> comp_ref \<Rightarrow> world \<Rightarrow> loop_result option" where
  "messageLoop 0 en this w = None"
| "messageLoop (Suc n) en this w =
     (case MessageQueue_wait (msgQueue (impls w this)) of
        WaitBlocks \<Rightarrow> Some (Waiting w)
      | WaitFalse \<Rightarrow> Some (Exited w)
      | WaitTrue msg q \<Rightarrow>
          (case dispatch en this msg (set_queue this q w) of
             (None, w') \<Rightarrow> messageLoop n en this w'
           | (Some e, w') \<Rightarrow> Some (Threw e w')))"

text \<open>\<open>_compref = _tlwpInstance = compref\<close> on the thread \<open>self\<close>.\<close>

definition bind_active :: "thread_id \<Rightarrow> comp_ref \<Rightarrow> comp_ref option \<Rightarrow> world \<Rightarrow> world" where
  "bind_active self this cr w =
     w\<lparr>tlwpInstance := (tlwpInstance w)(self := cr),
       impls := (impls w)(this := (impls w this)\<lparr>compref := cr\<rparr>)\<rparr>"

text \<open>\<open>if(fn) { if(auto component = _compref.lock()) fn(); }\<close>\<close>

definition call_if_alive :: "comp_ref \<Rightarrow> action option \<Rightarrow> action" where
  "call_if_alive this fn w =
     (case fn of
        None \<Rightarrow> (None, w)
      | Some f \<Rightarrow>
          (case lock (compref (impls w this)) w of
             None \<Rightarrow> (None, w)
           | Some component \<Rightarrow> f w))"

text \<open>The part of \<open>startMessageLoop\<close> after the entry hook: the loop, then the exit
  hook.\<close>

definition loop_then_exit ::
  "nat \<Rightarrow> env \<Rightarrow> comp_ref \<Rightarrow> action option \<Rightarrow> world \<Rightarrow> loop_result option" where
  "loop_then_exit fuel en this onExit w1 =
     (case messageLoop fuel en this w1 of
        None \<Rightarrow> None
      | Some (Threw e w2) \<Rightarrow> Some (Threw e w2)
      | Some (Waiting w2) \<Rightarrow> Some (Waiting w2)
      | Some (Exited w2) \<Rightarrow>
          (case call_if_alive this onExit w2 of
             (Some e, w3) \<Rightarrow> Some (Threw e w3)
           | (None, w3) \<Rightarrow> Some (Exited w3)))"

text \<open>\<open>ComponentImpl::startMessageLoop\<close>, running on the thread \<open>self\<close>: the binding, the
  entry hook, and then the loop and the exit hook.\<close>

definition startMessageLoop ::
  "nat \<Rightarrow> env \<Rightarrow> thread_id \<Rightarrow> comp_ref \<Rightarrow> comp_ref option
     \<Rightarrow> action option \<Rightarrow> action option \<Rightarrow> world \<Rightarrow> loop_result option" where
  "startMessageLoop fuel en self this cr onEntry onExit w =
     (case call_if_alive this onEntry (bind_active self this cr w) of
        (Some e, w1) \<Rightarrow> Some (Threw e w1)
      | (None, w1) \<Rightarrow> loop_then_exit fuel en this onExit w1)"

section \<open>Stopping a component\<close>

text \<open>
  \<open>_workerThread.join()\<close> returns when the worker's thread function has returned. The
  worker runs \<open>startMessageLoop\<close>; what it still has to do when \<open>stop\<close> has closed the queue
  is the rest of its loop (the messages still queued, each with its handler) and the exit
  hook. \<open>join_worker\<close> lets the worker do that on the given world and then leaves the thread
  member not joinable. It does not return when the worker does not finish: the bound on
  \<open>wait\<close> calls is reached (\<open>None\<close>), the worker is blocked in \<open>wait\<close> (\<open>Waiting\<close>), or an
  exception leaves the thread function (\<open>Threw\<close>).
\<close>

definition join_worker :: "nat \<Rightarrow> env \<Rightarrow> comp_ref \<Rightarrow> world \<Rightarrow> loop_result option" where
  "join_worker fuel en this w =
     (case workerThread (impls w this) of
        None \<Rightarrow> Some (Exited w)
      | Some wk \<Rightarrow>
          (case loop_then_exit fuel en this (map_option (callFn en) (w_onExit wk)) w of
             None \<Rightarrow> None
           | Some (Threw e w') \<Rightarrow> Some (Threw e w')
           | Some (Waiting w') \<Rightarrow> Some (Waiting w')
           | Some (Exited w') \<Rightarrow>
               Some (Exited
                 (w'\<lparr>impls := (impls w')(this := (impls w' this)\<lparr>workerThread := None\<rparr>),
                    trace := trace w' @ [ThreadJoin (w_tid wk)]\<rparr>))))"

text \<open>\<open>ComponentImpl::stop\<close>, called on the thread \<open>caller\<close>. A \<open>std::thread\<close> member that
  is not joinable has the default id, which no running thread has. The result is
  \<open>Exited\<close> with the world \<open>stop\<close> leaves when it returns; when the join does not return,
  it is the outcome of the join.\<close>

definition Component_stop ::
  "nat \<Rightarrow> env \<Rightarrow> thread_id \<Rightarrow> comp_ref \<Rightarrow> world \<Rightarrow> loop_result option" where
  "Component_stop fuel en caller this w =
     (let w1 = close_queue this w;
          w2 = (case timerMgr (impls w1 this) of
                  None \<Rightarrow> w1
                | Some m \<Rightarrow> reset_timerMgr this (stop_manager m w1))
      in if Some caller \<noteq> map_option w_tid (workerThread (impls w2 this))
         then (if workerThread (impls w2 this) \<noteq> None
               then join_worker fuel en this w2 else Some (Exited w2))
         else Some (Exited w2))"

section \<open>Timer\<close>

text \<open>Writing a number to the log stream.\<close>

fun decimal :: "nat \<Rightarrow> string" where
  "decimal n =
     (if n < 10 then [''0123456789'' ! n]
      else decimal (n div 10) @ [''0123456789'' ! (n mod 10)])"

declare decimal.simps [simp del]

text \<open>\<open>Timer::Timer()\<close>.\<close>

definition Timer :: timer where
  "Timer = \<lparr>t_id = invalidJobID, t_cyclic = False, t_myMgr = None\<rparr>"

text \<open>\<open>Timer::running\<close>, \<open>Timer::stop\<close>, \<open>Timer::restart\<close>, \<open>Timer::setCyclic\<close>;
  \<open>stop_job m i\<close> is the call \<open>stop(i)\<close> on the manager at address \<open>m\<close>.\<close>

definition running :: "timer_ref \<Rightarrow> world \<Rightarrow> bool" where
  "running this w =
     (case t_myMgr (timers w this) of
        None \<Rightarrow> False
      | Some m \<Rightarrow> isRunning (t_id (timers w this)) (tmgrs w m))"

definition stop_job :: "tm_ref \<Rightarrow> job_id \<Rightarrow> world \<Rightarrow> world" where
  "stop_job m i w = w\<lparr>tmgrs := (tmgrs w)(m := TimerManager_stop_job i (tmgrs w m))\<rparr>"

definition Timer_stop :: "timer_ref \<Rightarrow> world \<Rightarrow> world" where
  "Timer_stop this w =
     (case t_myMgr (timers w this) of
        None \<Rightarrow> w
      | Some m \<Rightarrow> stop_job m (t_id (timers w this)) w)"

definition Timer_restart :: "timer_ref \<Rightarrow> world \<Rightarrow> world" where
  "Timer_restart this w =
     (case t_myMgr (timers w this) of
        None \<Rightarrow> w
      | Some m \<Rightarrow>
          w\<lparr>tmgrs := (tmgrs w)(m := TimerManager_restart (t_id (timers w this)) (tmgrs w m))\<rparr>)"

definition setCyclic :: "timer_ref \<Rightarrow> bool \<Rightarrow> world \<Rightarrow> world" where
  "setCyclic this cyc w =
     (if cyc \<noteq> t_cyclic (timers w this)
      then (case t_myMgr (timers w this) of
              None \<Rightarrow> w\<lparr>timers := (timers w)(this := (timers w this)\<lparr>t_cyclic := cyc\<rparr>)\<rparr>
            | Some m \<Rightarrow>
                w\<lparr>timers := (timers w)(this := (timers w this)\<lparr>t_cyclic := cyc\<rparr>),
                  tmgrs := (tmgrs w)
                    (m := TimerManager_setCyclic (t_id (timers w this)) cyc (tmgrs w m))\<rparr>)
      else w)"

text \<open>\<open>Timer::start\<close>, called on the thread \<open>self\<close>. The assignment
  \<open>_myMgr = Component::getTimerManager()\<close> is part of the second condition, so it happens
  whenever the callback is not null, also when the result is empty.\<close>

definition Timer_start ::
  "thread_id \<Rightarrow> timer_ref \<Rightarrow> nat \<Rightarrow> closure option \<Rightarrow> world \<Rightarrow> world" where
  "Timer_start self this milliseconds callback w =
     (case callback of
        None \<Rightarrow> mafErr ''[Timer]: Please specify not null callback'' w
      | Some cb \<Rightarrow>
          (case Component_getTimerManager self w of
             (mgr, w1) \<Rightarrow>
               (let w2 = w1\<lparr>timers := (timers w1)(this := (timers w1 this)\<lparr>t_myMgr := mgr\<rparr>)\<rparr>
                in case mgr of
                     None \<Rightarrow> w2
                   | Some m \<Rightarrow>
                       (let w3 = (if running this w2
                                  then Timer_stop this
                                         (mafInfo ''Timer is still running, then stop!'' w2)
                                  else w2);
                            componentRef = getActiveWeakPtr self w3;
                            started = TimerManager_start milliseconds
                                        (OnTimeout componentRef cb this)
                                        (t_cyclic (timers w3 this)) (tmgrs w3 m);
                            w4 = w3\<lparr>tmgrs := (tmgrs w3)(m := snd started),
                                   timers := (timers w3)
                                     (this := (timers w3 this)\<lparr>t_id := fst started\<rparr>)\<rparr>
                        in mafInfo (''Start new timer with id = '' @ decimal (fst started))
                             w4))))"

text \<open>The \<open>onTimeout\<close> lambda of \<open>Timer::start\<close> with its captures \<open>componentRef\<close>,
  \<open>callback\<close> and \<open>this\<close>; \<open>fault\<close> is what the queue's \<open>push\<close> does when the message is
  posted.\<close>

definition onTimeout :: "exc option \<Rightarrow> comp_ref option \<Rightarrow> closure \<Rightarrow> timer_ref \<Rightarrow> action" where
  "onTimeout fault componentRef callback this w =
     (case (case lock componentRef w of
              Some component \<Rightarrow>
                postMessage fault component
                  (Some (TimeoutMsg (t_id (timers w this)) (Some callback))) w
            | None \<Rightarrow>
                (let w1 = (case t_myMgr (timers w this) of
                             None \<Rightarrow> w
                           | Some m \<Rightarrow>
                               if t_cyclic (timers w this)
                               then stop_job m (t_id (timers w this)) w else w)
                 in (None, w1\<lparr>timers := (timers w1)
                                 (this := (timers w1 this)\<lparr>t_id := invalidJobID\<rparr>)\<rparr>))) of
        (Some e, w2) \<Rightarrow> (Some e, w2)
      | (None, w2) \<Rightarrow>
          (if \<not> t_cyclic (timers w2 this)
           then (None, w2\<lparr>timers := (timers w2)
                             (this := (timers w2 this)\<lparr>t_id := invalidJobID\<rparr>)\<rparr>)
           else (None, w2)))"

definition run_job_callback :: "exc option \<Rightarrow> job_callback \<Rightarrow> action" where
  "run_job_callback fault cb =
     (case cb of OnTimeout componentRef callback this \<Rightarrow>
        onTimeout fault componentRef callback this)"

text \<open>
  Modelled from the spec: the expiry of a job inside the timer manager, which is not among
  the sources. When the job \<open>j\<close> of the manager \<open>m\<close> is scheduled and its time has come,
  the manager runs the job's callback; a one-shot job is removed on expiry, a cyclic job
  stays scheduled. Nothing happens for an id that is not scheduled.
\<close>

definition expire :: "exc option \<Rightarrow> tm_ref \<Rightarrow> job_id \<Rightarrow> action" where
  "expire fault m j w =
     (if terminated (tmgrs w m) then (None, w)
      else case jobs (tmgrs w m) j of
             None \<Rightarrow> (None, w)
           | Some jb \<Rightarrow>
               run_job_callback fault (job_callback jb)
                 (if job_cyclic jb then w
                  else w\<lparr>tmgrs := (tmgrs w)
                          (m := (tmgrs w m)\<lparr>jobs := (jobs (tmgrs w m))(j := None)\<rparr>)\<rparr>))"

section \<open>Notions used in the statements\<close>

text \<open>The messages in a component's queue that carry a given callback.\<close>

definition carries :: "closure \<Rightarrow> message option \<Rightarrow> bool" where
  "carries cb x = (case x of Some (TimeoutMsg i (Some k)) \<Rightarrow> k = cb | _ \<Rightarrow> False)"

definition timeout_posts :: "closure \<Rightarrow> comp_ref \<Rightarrow> world \<Rightarrow> nat" where
  "timeout_posts cb c w = length (filter (carries cb) (items (msgQueue (impls w c))))"

text \<open>The log line the loop writes for a thrown object, by the \<open>catch\<close> clause that
  takes it.\<close>

definition handler_error_text :: "exc \<Rightarrow> string" where
  "handler_error_text e =
     (if is_std_exception e
      then ''Exception occurred while executing messageHandler function: '' @ what e
      else ''Unknown exception occurred while executing messageHandler function: '')"

text \<open>The log line \<open>postMessage\<close> writes for an object thrown by \<open>push\<close>.\<close>

definition push_error_text :: "exc \<Rightarrow> string" where
  "push_error_text e =
     (if is_bad_alloc e then ''Queue overflow: '' @ what e
      else if is_std_exception e
      then ''Exception occurred when pushing data to queue: '' @ what e
      else ''Unkown exception occurred when pushing data to queue!'')"

text \<open>\<open>precedes a b xs\<close>: of the two events, \<open>a\<close> is the one that occurs first in \<open>xs\<close>, and
  \<open>b\<close> occurs after it.\<close>

fun precedes :: "'a \<Rightarrow> 'a \<Rightarrow> 'a list \<Rightarrow> bool" where
  "precedes a b [] = False"
| "precedes a b (x # xs) =
     (if x = a then b \<in> set xs else if x = b then False else precedes a b xs)"

fun result_trace :: "loop_result option \<Rightarrow> event list" where
  "result_trace None = []"
| "result_trace (Some (Exited w)) = trace w"
| "result_trace (Some (Threw e w)) = trace w"
| "result_trace (Some (Waiting w)) = trace w"

section \<open>Named pipe sender\<close>

text \<open>\<open>Address\<close>, \<open>Address::INVALID_ADDRESS\<close> and \<open>constructPipeName\<close> come from headers
  that are not part of the sources at hand: the address type is a type parameter, the
  constant and the function are parameters of \<open>initConnection\<close>.\<close>

record 'addr named_pipe_sender =
  pipeName :: string
  receiverAddress :: 'addr

definition initConnection ::
  "'addr \<Rightarrow> ('addr \<Rightarrow> string) \<Rightarrow> 'addr \<Rightarrow> 'addr named_pipe_sender \<Rightarrow> 'addr named_pipe_sender" where
  "initConnection INVALID_ADDRESS constructPipeName addr s =
     (if addr \<noteq> INVALID_ADDRESS \<and> receiverAddress s \<noteq> addr
      then s\<lparr>receiverAddress := addr, pipeName := constructPipeName addr\<rparr>
      else s)"

section \<open>Example worlds\<close>

definition world0 :: world where
  "world0 = \<lparr>tlwpInstance = (\<lambda>t. None), alive = (\<lambda>c. False), impls = (\<lambda>c. new_impl),
             tmgrs = (\<lambda>m. \<lparr>jobs = Map.empty, next_id = 1, terminated = False\<rparr>),
             tm_alloc = 0, timers = (\<lambda>t. \<lparr>t_id = 0, t_cyclic = False, t_myMgr = None\<rparr>),
             trace = []\<rparr>"

text \<open>A component with a timer manager at address 5 and a worker thread 7.\<close>

definition world_tm :: world where
  "world_tm = world0\<lparr>impls := (impls world0)
                 (0 := new_impl\<lparr>timerMgr := Some 5,
                                workerThread := Some \<lparr>w_tid = 7, w_onExit = None\<rparr>\<rparr>)\<rparr>"

text \<open>The world a returned call leaves; for a call that has not returned, the world at
  which it stands.\<close>

fun result_world :: "loop_result option \<Rightarrow> world" where
  "result_world None = world0"
| "result_world (Some (Exited w)) = w"
| "result_world (Some (Threw e w)) = w"
| "result_world (Some (Waiting w)) = w"

text \<open>User code for the scenarios: the callable 1 throws, every other callable and
  callback leaves a visible effect carrying its own name.\<close>

definition env_S2 :: env where
  "env_S2 = \<lparr>onMessageFunc = (\<lambda>f msg w. if f = 1 then (Some (StdException ''boom''), w)
                                       else (None, w\<lparr>trace := trace w @ [Effect f]\<rparr>)),
             onMessage = (\<lambda>h msg w. (None, w)),
             callFn = (\<lambda>c w. (None, w\<lparr>trace := trace w @ [Effect c]\<rparr>))\<rparr>"

text \<open>A constructed component with handlers for \<open>Boom\<close> (callable 1) and \<open>Ping\<close>
  (callable 2), whose closed queue holds a \<open>Boom\<close> and then a \<open>Ping\<close>.\<close>

definition queue_S2 :: msg_queue where
  "queue_S2 = \<lparr>items = [Some (UserMsg ''Boom'' 0), Some (UserMsg ''Ping'' 0)], closed = True\<rparr>"

definition world_S2 :: world where
  "world_S2 =
     set_queue 0 queue_S2
       (registerMessageHandler 0 (UserMessage ''Ping'') (Some (HandlerFunc 2))
          (registerMessageHandler 0 (UserMessage ''Boom'') (Some (HandlerFunc 1))
             (ComponentImpl 0 world0)))"

definition world_S2_alive :: world where
  "world_S2_alive = world_S2\<lparr>alive := (\<lambda>c. c = 0)\<rparr>"

text \<open>The same component, alive, after the entry phase of a run on thread 9 whose entry
  hook is the callback 10.\<close>

definition world_S2_entered :: world where
  "world_S2_entered = (bind_active 9 0 (Some 0) world_S2_alive)\<lparr>trace := [Effect 10]\<rparr>"

text \<open>A hook that throws.\<close>

definition throwing_hook :: action where
  "throwing_hook w = (Some (StdException ''hook''), w)"

definition trace_S2 :: "event list" where
  "trace_S2 = [Log Err ''Exception occurred while executing messageHandler function: boom'',
               Effect 2]"

definition drained :: "world \<Rightarrow> event list \<Rightarrow> world" where
  "drained w tr = (set_queue 0 \<lparr>items = [], closed = True\<rparr> w)\<lparr>trace := tr\<rparr>"

lemmas S2_defs = world_S2_def set_queue_def registerMessageHandler_def ComponentImpl_def
  world0_def new_impl_def map_insert_def queue_S2_def findHandler_def MessageQueue_wait_def
  env_S2_def dispatch_def try_catch_def mafErr_def world_S2_alive_def trace_S2_def
  drained_def world_S2_entered_def

text \<open>Thread 1 runs the loop of the live component 0; then a one-shot timer 0 with the
  callback 4 is started on that thread.\<close>

definition world_active :: world where
  "world_active = bind_active 1 0 (Some 0) ((ComponentImpl 0 world0)\<lparr>alive := (\<lambda>c. c = 0)\<rparr>)"

definition world_started :: world where
  "world_started = Timer_start 1 0 100 (Some 4) world_active"

lemmas timer_defs = world_active_def world_started_def bind_active_def ComponentImpl_def
  world0_def new_impl_def registerMessageHandler_def map_insert_def
  Timer_start_def Component_getTimerManager_def getTimerManager_def lock_def
  running_def isRunning_def Timer_stop_def stop_job_def TimerManager_new_def TimerManager_start_def
  TimerManager_stop_job_def getActiveWeakPtr_def mafInfo_def mafErr_def Let_def






section \<open>Properties of the handler registry\<close>

lemma map_insert_present: "m k = Some v \<Longrightarrow> map_insert k v' m = m"
  by (simp add: map_insert_def)

lemma map_insert_same: "map_insert k v m k = Some (case m k of None \<Rightarrow> v | Some old \<Rightarrow> old)"
  by (simp add: map_insert_def split: option.split)

lemma map_insert_other: "k' \<noteq> k \<Longrightarrow> map_insert k v m k' = m k'"
  by (simp add: map_insert_def split: option.split)

lemma findHandler_register:
  "findHandler this t' (registerMessageHandler this t (Some f) w) =
     (if t' = t then Some (case findHandler this t w of None \<Rightarrow> f | Some old \<Rightarrow> old)
      else findHandler this t' w)"
  by (simp add: findHandler_def registerMessageHandler_def map_insert_same map_insert_other)

lemma register_present_noop:
  "findHandler this t w = Some h \<Longrightarrow> registerMessageHandler this t g w = w"
  by (cases g) (simp_all add: findHandler_def registerMessageHandler_def map_insert_present)

lemma register_null_noop: "registerMessageHandler this t None w = w"
  by (simp add: registerMessageHandler_def)

lemma registerMessageHandler_keeps:
  "findHandler this t w = Some h \<Longrightarrow>
   findHandler this t (registerMessageHandler this t' f w) = Some h"
  by (cases f) (auto simp add: register_null_noop findHandler_register)

lemma register_one_keeps:
  "findHandler this t w = Some h \<Longrightarrow> findHandler this t (register_one this r w) = Some h"
proof (cases r)
  case (ByFunc t' f)
  assume "findHandler this t w = Some h"
  then show ?thesis using ByFunc
    by (simp add: registerMessageHandler_keeps)
next
  case (ByObject t' obj)
  assume "findHandler this t w = Some h"
  then show ?thesis using ByObject
    by (cases obj)
       (simp_all add: registerMessageHandlerObject_def registerMessageHandler_keeps)
qed

lemma register_all_keeps:
  "findHandler this t w = Some h \<Longrightarrow> findHandler this t (register_all this rs w) = Some h"
  by (induction rs arbitrary: w) (simp_all add: register_one_keeps)

lemma ComponentImpl_builtin:
  "findHandler this TimeoutMessage (ComponentImpl this w) = Some TimeoutHandler"
  "findHandler this CallbackExcMsg (ComponentImpl this w) = Some CallbackExcHandler"
  by (simp_all add: ComponentImpl_def findHandler_register)
     (simp_all add: findHandler_def new_impl_def)

text \<open>
  C1 (as stated, refuted). The claim: after a handler \<open>f\<close> and then a second non-null
  handler \<open>g\<close> are registered for the same message type, the loop's lookup yields \<open>g\<close>.
  On a freshly constructed component, registering \<open>HandlerFunc 2\<close> and then
  \<open>HandlerFunc 3\<close> for the type \<open>Ping\<close> leaves the lookup at \<open>HandlerFunc 2\<close>, and the
  loop, given a \<open>Ping\<close>, calls the callable 2 (whose effect is \<open>Effect 2\<close>).
\<close>

theorem C1_latest_registration_counterexample:
  "findHandler 0 (UserMessage ''Ping'')
     (registerMessageHandler 0 (UserMessage ''Ping'') (Some (HandlerFunc 3))
        (registerMessageHandler 0 (UserMessage ''Ping'') (Some (HandlerFunc 2))
           (ComponentImpl 0 world0)))
   \<noteq> Some (HandlerFunc 3)
   \<and> result_trace (messageLoop (Suc (Suc 0)) env_S2 0
        (set_queue 0 \<lparr>items = [Some (UserMsg ''Ping'' 0)], closed = True\<rparr>
           (registerMessageHandler 0 (UserMessage ''Ping'') (Some (HandlerFunc 3))
              (registerMessageHandler 0 (UserMessage ''Ping'') (Some (HandlerFunc 2))
                 (ComponentImpl 0 world0)))))
     = [Effect 2]"
  by (simp add: S2_defs)

text \<open>
  C1 (amended). Registering the same message type twice keeps only the earliest handler:
  once \<open>f\<close> is registered for \<open>t\<close>, registering \<open>g\<close> for \<open>t\<close> changes nothing at all, and
  the loop's lookup of \<open>t\<close> yields the handler that was there first (\<open>f\<close>, or the one
  already present before \<open>f\<close> was offered).
\<close>

theorem C1_first_registration_wins:
  "registerMessageHandler this t (Some g) (registerMessageHandler this t (Some f) w)
     = registerMessageHandler this t (Some f) w
   \<and> findHandler this t
       (registerMessageHandler this t (Some g) (registerMessageHandler this t (Some f) w))
     = Some (case findHandler this t w of None \<Rightarrow> f | Some old \<Rightarrow> old)"
proof -
  let ?w1 = "registerMessageHandler this t (Some f) w"
  have found: "findHandler this t ?w1 = Some (case findHandler this t w of None \<Rightarrow> f | Some old \<Rightarrow> old)"
    by (simp add: findHandler_register)
  have "registerMessageHandler this t (Some g) ?w1 = ?w1"
    by (rule register_present_noop [OF found])
  with found show ?thesis by simp
qed

text \<open>
  C9. The constructor installs the handlers for \<open>TimeoutMessage\<close> and \<open>CallbackExcMsg\<close>,
  and whatever sequence of \<open>registerMessageHandler\<close> calls (of either overload, for any
  types, null or not) follows, the loop's lookup for these two types still yields the
  built-in handlers.
\<close>

theorem C9_builtin_handlers_permanent:
  "findHandler this TimeoutMessage (register_all this rs (ComponentImpl this w))
     = Some TimeoutHandler
   \<and> findHandler this CallbackExcMsg (register_all this rs (ComponentImpl this w))
     = Some CallbackExcHandler"
  by (simp add: register_all_keeps ComponentImpl_builtin)

section \<open>Properties of postMessage\<close>

lemma postMessage_cases:
  "postMessage fault this msg w =
     (case fault of
        None \<Rightarrow> queue_push None this msg w
      | Some e \<Rightarrow> (None, mafErr (push_error_text e) w))"
  by (cases fault)
     (simp_all add: postMessage_def try_catch_def queue_push_def MessageQueue_push_def
        catch_all_def push_error_text_def)

text \<open>
  C6. \<open>postMessage(msg)\<close> hands \<open>msg\<close> to the queue's \<open>push\<close>. Whatever \<open>push\<close> throws
  (\<open>std::bad_alloc\<close>, another \<open>std::exception\<close>, any other object), \<open>postMessage\<close>
  completes normally: when \<open>push\<close> returns, the component's queue is the one \<open>push\<close>
  produced; when \<open>push\<close> throws, the only change is one error line in the log, and the
  queue is as it was, so the message has not arrived.
\<close>

theorem C6_postMessage_never_raises:
  "\<exists>w'. postMessage fault this msg w = (None, w')
     \<and> (case MessageQueue_push fault msg (msgQueue (impls w this)) of
          Inr q \<Rightarrow> w' = set_queue this q w
        | Inl e \<Rightarrow> w' = w\<lparr>trace := trace w @ [Log Err (push_error_text e)]\<rparr>
                   \<and> msgQueue (impls w' this) = msgQueue (impls w this))"
  by (cases fault)
     (auto simp add: postMessage_cases queue_push_def MessageQueue_push_def set_queue_def
        mafErr_def)

section \<open>Properties of the message loop\<close>

lemma dispatch_throwing:
  assumes "findHandler this (idof m) w = Some h" and "invoke en h m w = (Some e, w')"
  shows "dispatch en this (Some m) w = (None, mafErr (handler_error_text e) w')"
  using assms
  by (simp add: dispatch_def try_catch_def catch_all_def handler_error_text_def)

lemma dispatch_returning:
  assumes "findHandler this (idof m) w = Some h" and "invoke en h m w = (None, w')"
  shows "dispatch en this (Some m) w = (None, w')"
  using assms by (simp add: dispatch_def try_catch_def)

lemma dispatch_never_throws: "fst (dispatch en this msg w) = None"
proof (cases msg)
  case None
  then show ?thesis by (simp add: dispatch_def)
next
  case (Some m)
  note msg = this
  show ?thesis
  proof (cases "findHandler this (idof m) w")
    case None
    with msg show ?thesis by (simp add: dispatch_def)
  next
    case (Some h)
    note found = this
    obtain r w' where r: "invoke en h m w = (r, w')" by (cases "invoke en h m w")
    show ?thesis
    proof (cases r)
      case None
      with r found msg show ?thesis by (simp add: dispatch_returning)
    next
      case (Some e)
      with r found msg show ?thesis by (simp add: dispatch_throwing)
    qed
  qed
qed

lemma messageLoop_never_throws: "messageLoop n en this w \<noteq> Some (Threw e w')"
proof (induction n arbitrary: w)
  case 0
  show ?case by simp
next
  case (Suc n)
  show ?case
  proof (cases "MessageQueue_wait (msgQueue (impls w this))")
    case (WaitTrue msg q)
    obtain r w1 where d: "dispatch en this msg (set_queue this q w) = (r, w1)"
      by (cases "dispatch en this msg (set_queue this q w)")
    from dispatch_never_throws [of en this msg "set_queue this q w"] d have "r = None" by simp
    with d WaitTrue Suc.IH [of w1] show ?thesis by simp
  next
    case WaitFalse
    then show ?thesis by simp
  next
    case WaitBlocks
    then show ?thesis by simp
  qed
qed

lemma messageLoop_step:
  "messageLoop (Suc n) en this v =
     (case MessageQueue_wait (msgQueue (impls v this)) of
        WaitBlocks \<Rightarrow> Some (Waiting v)
      | WaitFalse \<Rightarrow> Some (Exited v)
      | WaitTrue msg q \<Rightarrow> messageLoop n en this (snd (dispatch en this msg (set_queue this q v))))"
proof (cases "MessageQueue_wait (msgQueue (impls v this))")
  case (WaitTrue msg q)
  obtain r w1 where d: "dispatch en this msg (set_queue this q v) = (r, w1)"
    by (cases "dispatch en this msg (set_queue this q v)")
  from dispatch_never_throws [of en this msg "set_queue this q v"] d have "r = None" by simp
  with d WaitTrue show ?thesis by simp
next
  case WaitFalse
  then show ?thesis by simp
next
  case WaitBlocks
  then show ?thesis by simp
qed

lemma loop_then_exit_step:
  "loop_then_exit (Suc n) en this onExit v =
     (case MessageQueue_wait (msgQueue (impls v this)) of
        WaitBlocks \<Rightarrow> Some (Waiting v)
      | WaitFalse \<Rightarrow>
          (case call_if_alive this onExit v of
             (Some x, w3) \<Rightarrow> Some (Threw x w3)
           | (None, w3) \<Rightarrow> Some (Exited w3))
      | WaitTrue msg q \<Rightarrow>
          loop_then_exit n en this onExit (snd (dispatch en this msg (set_queue this q v))))"
  unfolding loop_then_exit_def messageLoop_step [of n en this v]
  by (cases "MessageQueue_wait (msgQueue (impls v this))") simp_all

lemma loop_then_exit_throw_origin:
  assumes "loop_then_exit k en this onExit v = Some (Threw e0 v1)"
  shows "\<exists>u. messageLoop k en this v = Some (Exited u) \<and> call_if_alive this onExit u = (Some e0, v1)"
proof (cases "messageLoop k en this v")
  case None
  with assms show ?thesis by (simp add: loop_then_exit_def)
next
  case (Some r)
  show ?thesis
  proof (cases r)
    case (Exited u)
    with Some assms show ?thesis
      by (simp add: loop_then_exit_def split: prod.splits option.splits)
  next
    case (Threw x u)
    with Some messageLoop_never_throws [of k en this v x u] show ?thesis by simp
  next
    case (Waiting u)
    with Some assms show ?thesis by (simp add: loop_then_exit_def)
  qed
qed

lemma startMessageLoop_throw_origin:
  assumes "startMessageLoop k en self this cr onEntry onExit v = Some (Threw e0 v1)"
  shows "call_if_alive this onEntry (bind_active self this cr v) = (Some e0, v1)
       \<or> (\<exists>u1 u2. call_if_alive this onEntry (bind_active self this cr v) = (None, u1)
              \<and> messageLoop k en this u1 = Some (Exited u2)
              \<and> call_if_alive this onExit u2 = (Some e0, v1))"
proof -
  obtain r u1 where entry: "call_if_alive this onEntry (bind_active self this cr v) = (r, u1)"
    by (cases "call_if_alive this onEntry (bind_active self this cr v)")
  show ?thesis
  proof (cases r)
    case None
    with entry assms have "loop_then_exit k en this onExit u1 = Some (Threw e0 v1)"
      by (simp add: startMessageLoop_def)
    from loop_then_exit_throw_origin [OF this] entry None show ?thesis by blast
  next
    case (Some x)
    with entry assms show ?thesis by (simp add: startMessageLoop_def)
  qed
qed

lemma call_if_alive_None: "call_if_alive this None w = (None, w)"
  by (simp add: call_if_alive_def)

lemma startMessageLoop_no_hooks_never_throws:
  "startMessageLoop n en self this cr None None w \<noteq> Some (Threw e w')"
proof
  assume "startMessageLoop n en self this cr None None w = Some (Threw e w')"
  from startMessageLoop_throw_origin [OF this] show False
    by (simp add: call_if_alive_None)
qed

text \<open>
  C2. Take any run of \<open>startMessageLoop\<close> whose entry phase has completed, and let the loop
  pop a message \<open>m\<close> whose handler \<open>h\<close> throws an object \<open>e\<close> of any kind. The loop body
  completes normally with one error line added to the log, and the loop goes on from that
  world: it calls \<open>wait\<close> again and, if there is a next message, dispatches it and
  continues; if the queue is closed and empty it leaves the loop (and the run goes on to
  the exit hook); if the queue is open and empty it waits. No run of the loop ends with an
  exception, and when a run of \<open>startMessageLoop\<close> ends with an exception, the exception
  was thrown by the entry hook or by the exit hook, never by a handler.
\<close>

theorem C2_handler_exception_caught:
  assumes entry: "call_if_alive this onEntry (bind_active self this cr w0) = (None, w)"
      and popped: "MessageQueue_wait (msgQueue (impls w this)) = WaitTrue (Some m) q"
      and found: "findHandler this (idof m) (set_queue this q w) = Some h"
      and throws: "invoke en h m (set_queue this q w) = (Some e, w')"
  shows "(let logged = w'\<lparr>trace := trace w' @ [Log Err (handler_error_text e)]\<rparr> in
          dispatch en this (Some m) (set_queue this q w) = (None, logged)
        \<and> messageLoop (Suc n) en this w = messageLoop n en this logged
        \<and> messageLoop (Suc (Suc n)) en this w =
            (case MessageQueue_wait (msgQueue (impls logged this)) of
               WaitBlocks \<Rightarrow> Some (Waiting logged)
             | WaitFalse \<Rightarrow> Some (Exited logged)
             | WaitTrue msg2 q2 \<Rightarrow>
                 messageLoop n en this (snd (dispatch en this msg2 (set_queue this q2 logged))))
        \<and> startMessageLoop (Suc (Suc n)) en self this cr onEntry onExit w0 =
            (case MessageQueue_wait (msgQueue (impls logged this)) of
               WaitBlocks \<Rightarrow> Some (Waiting logged)
             | WaitFalse \<Rightarrow>
                 (case call_if_alive this onExit logged of
                    (Some x, w3) \<Rightarrow> Some (Threw x w3)
                  | (None, w3) \<Rightarrow> Some (Exited w3))
             | WaitTrue msg2 q2 \<Rightarrow>
                 loop_then_exit n en this onExit
                   (snd (dispatch en this msg2 (set_queue this q2 logged)))))
       \<and> messageLoop k en this v \<noteq> Some (Threw e0 v1)
       \<and> startMessageLoop k en self' this cr' None None v \<noteq> Some (Threw e0 v1)
       \<and> (startMessageLoop k en self' this cr' entryHook exitHook v = Some (Threw e0 v1) \<longrightarrow>
            call_if_alive this entryHook (bind_active self' this cr' v) = (Some e0, v1)
          \<or> (\<exists>u1 u2. call_if_alive this entryHook (bind_active self' this cr' v) = (None, u1)
                 \<and> messageLoop k en this u1 = Some (Exited u2)
                 \<and> call_if_alive this exitHook u2 = (Some e0, v1)))"
proof -
  let ?logged = "w'\<lparr>trace := trace w' @ [Log Err (handler_error_text e)]\<rparr>"
  have body: "dispatch en this (Some m) (set_queue this q w) = (None, ?logged)"
    using dispatch_throwing [OF found throws] by (simp add: mafErr_def)
  have step: "messageLoop (Suc j) en this w = messageLoop j en this ?logged" for j
    using popped body by simp
  have tail: "loop_then_exit (Suc j) en this onExit w = loop_then_exit j en this onExit ?logged"
    for j
    by (simp only: loop_then_exit_def step)
  have run: "startMessageLoop (Suc (Suc n)) en self this cr onEntry onExit w0
               = loop_then_exit (Suc n) en this onExit ?logged"
    using entry tail [of "Suc n"] by (simp add: startMessageLoop_def)
  have origin: "startMessageLoop k en self' this cr' entryHook exitHook v = Some (Threw e0 v1) \<longrightarrow>
            call_if_alive this entryHook (bind_active self' this cr' v) = (Some e0, v1)
          \<or> (\<exists>u1 u2. call_if_alive this entryHook (bind_active self' this cr' v) = (None, u1)
                 \<and> messageLoop k en this u1 = Some (Exited u2)
                 \<and> call_if_alive this exitHook u2 = (Some e0, v1))"
    using startMessageLoop_throw_origin [of k en self' this cr' entryHook exitHook v e0 v1]
    by blast
  show ?thesis
    unfolding Let_def
    using body step [of n] step [of "Suc n"] run
          messageLoop_step [of n en this ?logged]
          loop_then_exit_step [of n en this onExit ?logged]
          messageLoop_never_throws [of k en this v e0 v1]
          startMessageLoop_no_hooks_never_throws [of k en self' this cr' v e0 v1]
          origin
    by (simp only:) blast
qed

theorem C2_handler_exception_caught_witness:
  "call_if_alive 0 (Some (callFn env_S2 10)) (bind_active 9 0 (Some 0) world_S2_alive)
     = (None, world_S2_entered)
   \<and> MessageQueue_wait (msgQueue (impls world_S2_entered 0))
     = WaitTrue (Some (UserMsg ''Boom'' 0)) \<lparr>items = [Some (UserMsg ''Ping'' 0)], closed = True\<rparr>
   \<and> findHandler 0 (idof (UserMsg ''Boom'' 0))
        (set_queue 0 \<lparr>items = [Some (UserMsg ''Ping'' 0)], closed = True\<rparr> world_S2_entered)
     = Some (HandlerFunc 1)
   \<and> invoke env_S2 (HandlerFunc 1) (UserMsg ''Boom'' 0)
        (set_queue 0 \<lparr>items = [Some (UserMsg ''Ping'' 0)], closed = True\<rparr> world_S2_entered)
     = (Some (StdException ''boom''),
        set_queue 0 \<lparr>items = [Some (UserMsg ''Ping'' 0)], closed = True\<rparr> world_S2_entered)
   \<and> result_trace (messageLoop (Suc (Suc (Suc 0))) env_S2 0 world_S2_entered)
     = Effect 10 # trace_S2
   \<and> messageLoop (Suc (Suc (Suc 0))) env_S2 0 world_S2_entered
     = Some (Exited (drained world_S2_entered (Effect 10 # trace_S2)))
   \<and> result_trace (startMessageLoop (Suc (Suc (Suc 0))) env_S2 9 0 (Some 0)
        (Some (callFn env_S2 10)) (Some (callFn env_S2 11)) world_S2_alive)
     = Effect 10 # trace_S2 @ [Effect 11]
   \<and> startMessageLoop (Suc 0) env_S2 9 0 (Some 0) (Some throwing_hook) None world_S2_alive
     = Some (Threw (StdException ''hook'') (bind_active 9 0 (Some 0) world_S2_alive))
   \<and> call_if_alive 0 (Some throwing_hook) (bind_active 9 0 (Some 0) world_S2_alive)
     = (Some (StdException ''hook''), bind_active 9 0 (Some 0) world_S2_alive)"
proof -
  let ?q = "\<lparr>items = [Some (UserMsg ''Ping'' 0)], closed = True\<rparr>"
  let ?w1 = "set_queue 0 ?q world_S2_entered"
  let ?logged = "?w1\<lparr>trace := trace ?w1 @ [Log Err (handler_error_text (StdException ''boom''))]\<rparr>"
  let ?hA = "callFn env_S2 10" and ?hB = "callFn env_S2 11"
  have entry: "call_if_alive 0 (Some ?hA) (bind_active 9 0 (Some 0) world_S2_alive)
                 = (None, world_S2_entered)"
    by (simp add: call_if_alive_def lock_def bind_active_def S2_defs)
  have popped: "MessageQueue_wait (msgQueue (impls world_S2_entered 0))
                  = WaitTrue (Some (UserMsg ''Boom'' 0)) ?q"
    by (simp add: S2_defs bind_active_def)
  have found: "findHandler 0 (idof (UserMsg ''Boom'' 0)) ?w1 = Some (HandlerFunc 1)"
    by (simp add: S2_defs bind_active_def)
  have throws: "invoke env_S2 (HandlerFunc 1) (UserMsg ''Boom'' 0) ?w1
                  = (Some (StdException ''boom''), ?w1)"
    by (simp add: env_S2_def)
  note inst = C2_handler_exception_caught
                [OF entry popped found throws, of "Suc 0" "Some ?hB" "Suc 0" world_S2_alive
                    "StdException ''hook''" "bind_active 9 0 (Some 0) world_S2_alive" 9
                    "Some 0" "Some throwing_hook" None, unfolded Let_def]
  have next_msg: "MessageQueue_wait (msgQueue (impls ?logged 0))
                    = WaitTrue (Some (UserMsg ''Ping'' 0)) \<lparr>items = [], closed = True\<rparr>"
    by (simp add: S2_defs bind_active_def)
  from inst have "messageLoop (Suc (Suc (Suc 0))) env_S2 0 world_S2_entered =
            (case MessageQueue_wait (msgQueue (impls ?logged 0)) of
               WaitBlocks \<Rightarrow> Some (Waiting ?logged)
             | WaitFalse \<Rightarrow> Some (Exited ?logged)
             | WaitTrue msg2 q2 \<Rightarrow>
                 messageLoop (Suc 0) env_S2 0
                   (snd (dispatch env_S2 0 msg2 (set_queue 0 q2 ?logged))))"
    by blast
  then have loop: "messageLoop (Suc (Suc (Suc 0))) env_S2 0 world_S2_entered =
      messageLoop (Suc 0) env_S2 0
        (snd (dispatch env_S2 0 (Some (UserMsg ''Ping'' 0))
               (set_queue 0 \<lparr>items = [], closed = True\<rparr> ?logged)))"
    by (simp only: next_msg wait_result.case)
  have loop_value: "messageLoop (Suc 0) env_S2 0
        (snd (dispatch env_S2 0 (Some (UserMsg ''Ping'' 0))
               (set_queue 0 \<lparr>items = [], closed = True\<rparr> ?logged)))
      = Some (Exited (drained world_S2_entered (Effect 10 # trace_S2)))"
    by (simp add: S2_defs bind_active_def handler_error_text_def)
  from inst have "startMessageLoop (Suc (Suc (Suc 0))) env_S2 9 0 (Some 0)
        (Some ?hA) (Some ?hB) world_S2_alive =
            (case MessageQueue_wait (msgQueue (impls ?logged 0)) of
               WaitBlocks \<Rightarrow> Some (Waiting ?logged)
             | WaitFalse \<Rightarrow>
                 (case call_if_alive 0 (Some ?hB) ?logged of
                    (Some x, w3) \<Rightarrow> Some (Threw x w3)
                  | (None, w3) \<Rightarrow> Some (Exited w3))
             | WaitTrue msg2 q2 \<Rightarrow>
                 loop_then_exit (Suc 0) env_S2 0 (Some ?hB)
                   (snd (dispatch env_S2 0 msg2 (set_queue 0 q2 ?logged))))"
    by blast
  then have run: "startMessageLoop (Suc (Suc (Suc 0))) env_S2 9 0 (Some 0)
        (Some ?hA) (Some ?hB) world_S2_alive =
      loop_then_exit (Suc 0) env_S2 0 (Some ?hB)
        (snd (dispatch env_S2 0 (Some (UserMsg ''Ping'' 0))
               (set_queue 0 \<lparr>items = [], closed = True\<rparr> ?logged)))"
    by (simp only: next_msg wait_result.case)
  have run_value: "result_trace (loop_then_exit (Suc 0) env_S2 0 (Some ?hB)
        (snd (dispatch env_S2 0 (Some (UserMsg ''Ping'' 0))
               (set_queue 0 \<lparr>items = [], closed = True\<rparr> ?logged))))
      = Effect 10 # trace_S2 @ [Effect 11]"
    by (simp add: S2_defs bind_active_def handler_error_text_def loop_then_exit_def
          call_if_alive_def lock_def)
  have thrown: "startMessageLoop (Suc 0) env_S2 9 0 (Some 0) (Some throwing_hook) None world_S2_alive
     = Some (Threw (StdException ''hook'') (bind_active 9 0 (Some 0) world_S2_alive))"
    and by_hook: "call_if_alive 0 (Some throwing_hook) (bind_active 9 0 (Some 0) world_S2_alive)
     = (Some (StdException ''hook''), bind_active 9 0 (Some 0) world_S2_alive)"
    by (simp_all add: startMessageLoop_def call_if_alive_def lock_def bind_active_def
          throwing_hook_def S2_defs)
  have "result_trace (messageLoop (Suc (Suc (Suc 0))) env_S2 0 world_S2_entered)
          = Effect 10 # trace_S2"
    unfolding loop loop_value by (simp add: drained_def)
  moreover have "messageLoop (Suc (Suc (Suc 0))) env_S2 0 world_S2_entered
     = Some (Exited (drained world_S2_entered (Effect 10 # trace_S2)))"
    unfolding loop loop_value ..
  moreover have "result_trace (startMessageLoop (Suc (Suc (Suc 0))) env_S2 9 0 (Some 0)
        (Some ?hA) (Some ?hB) world_S2_alive) = Effect 10 # trace_S2 @ [Effect 11]"
    unfolding run run_value ..
  ultimately show ?thesis
    using entry popped found throws thrown by_hook by blast
qed

lemma bind_active_sets:
  "tlwpInstance (bind_active self this cr w) self = cr"
  "compref (impls (bind_active self this cr w) this) = cr"
  "lock r (bind_active self this cr w) = lock r w"
  by (simp_all add: bind_active_def lock_def split: option.split)

lemma entry_call:
  "call_if_alive this (Some f) (bind_active self this cr w) =
     (if lock cr w = None then (None, bind_active self this cr w)
      else f (bind_active self this cr w))"
  by (cases "lock cr w") (simp_all add: call_if_alive_def bind_active_sets)

lemma entry_sees_binding:
  "startMessageLoop fuel en self this cr (Some f) onExit w =
   startMessageLoop fuel en self this cr
     (Some (\<lambda>w'. if tlwpInstance w' self = cr \<and> compref (impls w' this) = cr then f w' else g w'))
     onExit w"
  by (simp add: startMessageLoop_def entry_call bind_active_sets)

lemma entry_only_if_alive:
  "lock cr w = None \<Longrightarrow>
   startMessageLoop fuel en self this cr (Some f) onExit w =
   startMessageLoop fuel en self this cr None onExit w"
  by (simp add: startMessageLoop_def entry_call call_if_alive_None)

lemma entry_if_alive:
  "lock cr w \<noteq> None \<Longrightarrow>
   startMessageLoop fuel en self this cr (Some f) onExit w =
     (case f (bind_active self this cr w) of
        (Some e, w1) \<Rightarrow> Some (Threw e w1)
      | (None, w1) \<Rightarrow> loop_then_exit fuel en this onExit w1)"
  by (auto simp add: startMessageLoop_def entry_call)

lemma run_without_entry_hook:
  "startMessageLoop fuel en self this cr None onExit w =
     loop_then_exit fuel en this onExit (bind_active self this cr w)"
  by (simp add: startMessageLoop_def call_if_alive_None)

lemma run_entry_throws:
  "call_if_alive this onEntry (bind_active self this cr w) = (Some e, v1) \<Longrightarrow>
   startMessageLoop fuel en self this cr onEntry onExit w = Some (Threw e v1)"
  by (simp add: startMessageLoop_def)

lemma exit_not_alive:
  "messageLoop fuel en this w1 = Some (Exited w2) \<Longrightarrow> lock (compref (impls w2 this)) w2 = None
   \<Longrightarrow> loop_then_exit fuel en this (Some g) w1 = Some (Exited w2)"
  by (simp add: loop_then_exit_def call_if_alive_def)

lemma exit_alive:
  "messageLoop fuel en this w1 = Some (Exited w2) \<Longrightarrow> lock (compref (impls w2 this)) w2 \<noteq> None
   \<Longrightarrow> loop_then_exit fuel en this (Some g) w1 =
        (case g w2 of (Some e, w3) \<Rightarrow> Some (Threw e w3) | (None, w3) \<Rightarrow> Some (Exited w3))"
  by (auto simp add: loop_then_exit_def call_if_alive_def)

lemma exit_no_hook:
  "messageLoop fuel en this w1 = Some (Exited w2)
   \<Longrightarrow> loop_then_exit fuel en this None w1 = Some (Exited w2)"
  by (simp add: loop_then_exit_def call_if_alive_None)

lemma exit_only_after_loop:
  "(\<forall>w2. messageLoop fuel en this w1 \<noteq> Some (Exited w2))
   \<Longrightarrow> loop_then_exit fuel en this onExit w1 = messageLoop fuel en this w1"
proof (cases "messageLoop fuel en this w1")
  case None
  then show ?thesis by (simp add: loop_then_exit_def)
next
  case (Some r)
  assume "\<forall>w2. messageLoop fuel en this w1 \<noteq> Some (Exited w2)"
  with Some show ?thesis by (cases r) (simp_all add: loop_then_exit_def)
qed

lemma run_exit_not_alive:
  "call_if_alive this onEntry (bind_active self this cr w) = (None, v1)
   \<Longrightarrow> messageLoop fuel en this v1 = Some (Exited v2)
   \<Longrightarrow> lock (compref (impls v2 this)) v2 = None
   \<Longrightarrow> startMessageLoop fuel en self this cr onEntry (Some h) w = Some (Exited v2)"
  by (simp add: startMessageLoop_def exit_not_alive)

lemma run_exit_alive:
  "call_if_alive this onEntry (bind_active self this cr w) = (None, v1)
   \<Longrightarrow> messageLoop fuel en this v1 = Some (Exited v2)
   \<Longrightarrow> lock (compref (impls v2 this)) v2 \<noteq> None
   \<Longrightarrow> startMessageLoop fuel en self this cr onEntry (Some h) w =
        (case h v2 of (Some e, v3) \<Rightarrow> Some (Threw e v3) | (None, v3) \<Rightarrow> Some (Exited v3))"
  by (simp add: startMessageLoop_def exit_alive)

lemma run_exit_no_hook:
  "call_if_alive this onEntry (bind_active self this cr w) = (None, v1)
   \<Longrightarrow> messageLoop fuel en this v1 = Some (Exited v2)
   \<Longrightarrow> startMessageLoop fuel en self this cr onEntry None w = Some (Exited v2)"
  by (simp add: startMessageLoop_def exit_no_hook)

lemma run_exit_only_after_loop:
  "call_if_alive this onEntry (bind_active self this cr w) = (None, v1)
   \<Longrightarrow> (\<forall>v. messageLoop fuel en this v1 \<noteq> Some (Exited v))
   \<Longrightarrow> startMessageLoop fuel en self this cr onEntry onExit w = messageLoop fuel en this v1"
  by (simp add: startMessageLoop_def exit_only_after_loop)

text \<open>
  C5. In every run of \<open>startMessageLoop\<close>, with or without an entry hook and whether or not
  the component is alive at entry:
  (1) the entry hook only ever runs in a world where the thread-local binding of the
  running thread and the component's own handle are already set to the given handle: a
  hook that first checks the binding and does something else when it is not set behaves
  as the plain hook;
  (2) when the handle does not upgrade, the entry hook is not run: the run is that of a
  run without entry hook;
  (3) when it upgrades, the hook runs on the bound world, before the loop;
  (4) a run without entry hook goes from the binding straight to the loop;
  (5) when the entry hook throws, the run ends there: no loop, no exit hook;
  (6) (7) once the entry phase has completed and the loop has terminated, the exit hook
  runs if and only if the component's handle upgrades then, on the world the loop left;
  (8) without exit hook the run returns the world the loop left;
  (9) when the loop does not terminate (the thread stays blocked in \<open>wait\<close>, or the bound
  on iterations is reached), the exit hook is not run.
\<close>

theorem C5_entry_exit_hooks:
  "startMessageLoop fuel en self this cr (Some f) onExit w =
     startMessageLoop fuel en self this cr
       (Some (\<lambda>w'. if tlwpInstance w' self = cr \<and> compref (impls w' this) = cr
                   then f w' else g w'))
       onExit w
   \<and> (lock cr w = None \<longrightarrow>
        startMessageLoop fuel en self this cr (Some f) onExit w =
        startMessageLoop fuel en self this cr None onExit w)
   \<and> (lock cr w \<noteq> None \<longrightarrow>
        startMessageLoop fuel en self this cr (Some f) onExit w =
          (case f (bind_active self this cr w) of
             (Some e, w1) \<Rightarrow> Some (Threw e w1)
           | (None, w1) \<Rightarrow> loop_then_exit fuel en this onExit w1))
   \<and> startMessageLoop fuel en self this cr None onExit w =
        loop_then_exit fuel en this onExit (bind_active self this cr w)
   \<and> (call_if_alive this onEntry (bind_active self this cr w) = (Some x, v1) \<longrightarrow>
        startMessageLoop fuel en self this cr onEntry onExit w = Some (Threw x v1))
   \<and> (call_if_alive this onEntry (bind_active self this cr w) = (None, v1)
        \<and> messageLoop fuel en this v1 = Some (Exited v2)
        \<and> lock (compref (impls v2 this)) v2 = None
        \<longrightarrow> startMessageLoop fuel en self this cr onEntry (Some h) w = Some (Exited v2))
   \<and> (call_if_alive this onEntry (bind_active self this cr w) = (None, v1)
        \<and> messageLoop fuel en this v1 = Some (Exited v2)
        \<and> lock (compref (impls v2 this)) v2 \<noteq> None
        \<longrightarrow> startMessageLoop fuel en self this cr onEntry (Some h) w =
              (case h v2 of (Some e, v3) \<Rightarrow> Some (Threw e v3) | (None, v3) \<Rightarrow> Some (Exited v3)))
   \<and> (call_if_alive this onEntry (bind_active self this cr w) = (None, v1)
        \<and> messageLoop fuel en this v1 = Some (Exited v2)
        \<longrightarrow> startMessageLoop fuel en self this cr onEntry None w = Some (Exited v2))
   \<and> (call_if_alive this onEntry (bind_active self this cr w) = (None, v1)
        \<and> (\<forall>v. messageLoop fuel en this v1 \<noteq> Some (Exited v))
        \<longrightarrow> startMessageLoop fuel en self this cr onEntry onExit w
              = messageLoop fuel en this v1)"
  using entry_sees_binding [of fuel en self this cr f onExit w g]
        entry_only_if_alive [of cr w fuel en self this f onExit]
        entry_if_alive [of cr w fuel en self this f onExit]
        run_without_entry_hook [of fuel en self this cr onExit w]
        run_entry_throws [of this onEntry self cr w x v1 fuel en onExit]
        run_exit_not_alive [of this onEntry self cr w v1 fuel en v2 h]
        run_exit_alive [of this onEntry self cr w v1 fuel en v2 h]
        run_exit_no_hook [of this onEntry self cr w v1 fuel en v2]
        run_exit_only_after_loop [of this onEntry self cr w v1 fuel en onExit]
  by blast

lemma loop_S2_dead:
  "messageLoop (Suc (Suc (Suc 0))) env_S2 0 (bind_active 9 0 (Some 0) world_S2)
     = Some (Exited (drained (bind_active 9 0 (Some 0) world_S2) trace_S2))"
  by (simp add: S2_defs bind_active_def)

lemma loop_S2_entered:
  "messageLoop (Suc (Suc (Suc 0))) env_S2 0 world_S2_entered
     = Some (Exited (drained world_S2_entered (Effect 10 # trace_S2)))"
  by (simp add: S2_defs bind_active_def)

lemma loop_open:
  "messageLoop (Suc (Suc (Suc 0))) env_S2 0 (bind_active 9 0 (Some 0) (ComponentImpl 0 world0))
     = Some (Waiting (bind_active 9 0 (Some 0) (ComponentImpl 0 world0)))"
  by (simp add: S2_defs bind_active_def)

theorem C5_entry_exit_hooks_witness:
  "lock (Some 0) world_S2 = None
   \<and> call_if_alive 0 (Some (callFn env_S2 10)) (bind_active 9 0 (Some 0) world_S2)
       = (None, bind_active 9 0 (Some 0) world_S2)
   \<and> messageLoop (Suc (Suc (Suc 0))) env_S2 0 (bind_active 9 0 (Some 0) world_S2)
       = Some (Exited (drained (bind_active 9 0 (Some 0) world_S2) trace_S2))
   \<and> lock (compref (impls (drained (bind_active 9 0 (Some 0) world_S2) trace_S2) 0))
        (drained (bind_active 9 0 (Some 0) world_S2) trace_S2) = None
   \<and> startMessageLoop (Suc (Suc (Suc 0))) env_S2 9 0 (Some 0)
        (Some (callFn env_S2 10)) (Some (callFn env_S2 11)) world_S2
       = Some (Exited (drained (bind_active 9 0 (Some 0) world_S2) trace_S2))
   \<and> startMessageLoop (Suc (Suc (Suc 0))) env_S2 9 0 (Some 0)
        None (Some (callFn env_S2 11)) world_S2
       = Some (Exited (drained (bind_active 9 0 (Some 0) world_S2) trace_S2))
   \<and> lock (Some 0) world_S2_alive \<noteq> None
   \<and> call_if_alive 0 (Some (callFn env_S2 10)) (bind_active 9 0 (Some 0) world_S2_alive)
       = (None, world_S2_entered)
   \<and> messageLoop (Suc (Suc (Suc 0))) env_S2 0 world_S2_entered
       = Some (Exited (drained world_S2_entered (Effect 10 # trace_S2)))
   \<and> lock (compref (impls (drained world_S2_entered (Effect 10 # trace_S2)) 0))
        (drained world_S2_entered (Effect 10 # trace_S2)) \<noteq> None
   \<and> result_trace (startMessageLoop (Suc (Suc (Suc 0))) env_S2 9 0 (Some 0)
        (Some (callFn env_S2 10)) (Some (callFn env_S2 11)) world_S2_alive)
       = Effect 10 # trace_S2 @ [Effect 11]
   \<and> startMessageLoop (Suc (Suc (Suc 0))) env_S2 9 0 (Some 0)
        (Some (callFn env_S2 10)) None world_S2_alive
       = Some (Exited (drained world_S2_entered (Effect 10 # trace_S2)))
   \<and> (\<forall>v. messageLoop (Suc (Suc (Suc 0))) env_S2 0
              (bind_active 9 0 (Some 0) (ComponentImpl 0 world0)) \<noteq> Some (Exited v))
   \<and> startMessageLoop (Suc (Suc (Suc 0))) env_S2 9 0 (Some 0)
        None (Some (callFn env_S2 11)) (ComponentImpl 0 world0)
       = Some (Waiting (bind_active 9 0 (Some 0) (ComponentImpl 0 world0)))
   \<and> call_if_alive 0 (Some throwing_hook) (bind_active 9 0 (Some 0) world_S2_alive)
       = (Some (StdException ''hook''), bind_active 9 0 (Some 0) world_S2_alive)
   \<and> startMessageLoop (Suc (Suc (Suc 0))) env_S2 9 0 (Some 0)
        (Some throwing_hook) (Some (callFn env_S2 11)) world_S2_alive
       = Some (Threw (StdException ''hook'') (bind_active 9 0 (Some 0) world_S2_alive))"
proof -
  let ?n = "Suc (Suc (Suc 0))"
  let ?hA = "callFn env_S2 10" and ?hB = "callFn env_S2 11"
  let ?bd = "bind_active 9 0 (Some 0) world_S2"
  let ?ba = "bind_active 9 0 (Some 0) world_S2_alive"
  let ?bo = "bind_active 9 0 (Some 0) (ComponentImpl 0 world0)"
  let ?dd = "drained ?bd trace_S2"
  let ?da = "drained world_S2_entered (Effect 10 # trace_S2)"
  let ?idle = "\<lambda>w::world. (None::exc option, w)"
  have dead: "lock (Some 0) world_S2 = None"
    by (simp add: lock_def S2_defs)
  have dead_entry: "call_if_alive 0 (Some ?hA) ?bd = (None, ?bd)"
    by (simp add: call_if_alive_def lock_def bind_active_def S2_defs)
  have dead_entry_none: "call_if_alive 0 None ?bd = (None, ?bd)"
    by (simp add: call_if_alive_None)
  have dead_after: "lock (compref (impls ?dd 0)) ?dd = None"
    by (simp add: lock_def S2_defs bind_active_def)
  have live: "lock (Some 0) world_S2_alive \<noteq> None"
    by (simp add: lock_def S2_defs)
  have live_entry: "call_if_alive 0 (Some ?hA) ?ba = (None, world_S2_entered)"
    by (simp add: call_if_alive_def lock_def bind_active_def S2_defs)
  have live_after: "lock (compref (impls ?da 0)) ?da \<noteq> None"
    by (simp add: lock_def S2_defs bind_active_def)
  have open_entry: "call_if_alive 0 None ?bo = (None, ?bo)"
    by (simp add: call_if_alive_None)
  have waits: "\<forall>v. messageLoop ?n env_S2 0 ?bo \<noteq> Some (Exited v)"
    unfolding loop_open by simp
  have thrown: "call_if_alive 0 (Some throwing_hook) ?ba = (Some (StdException ''hook''), ?ba)"
    by (simp add: call_if_alive_def lock_def bind_active_def throwing_hook_def S2_defs)
  note dead_run = C5_entry_exit_hooks
    [of ?n env_S2 9 0 "Some 0" ?hA "Some ?hB" world_S2 ?idle "Some ?hA"
        "StdException ''hook''" ?bd ?dd ?hB]
  note dead_plain = C5_entry_exit_hooks
    [of ?n env_S2 9 0 "Some 0" ?hA "Some ?hB" world_S2 ?idle None
        "StdException ''hook''" ?bd ?dd ?hB]
  note live_run = C5_entry_exit_hooks
    [of ?n env_S2 9 0 "Some 0" ?hA "Some ?hB" world_S2_alive ?idle "Some ?hA"
        "StdException ''hook''" world_S2_entered ?da ?hB]
  note open_run = C5_entry_exit_hooks
    [of ?n env_S2 9 0 "Some 0" ?hA "Some ?hB" "ComponentImpl 0 world0" ?idle None
        "StdException ''hook''" ?bo ?bo ?hB]
  note throw_run = C5_entry_exit_hooks
    [of ?n env_S2 9 0 "Some 0" ?hA "Some ?hB" world_S2_alive ?idle "Some throwing_hook"
        "StdException ''hook''" ?ba ?ba ?hB]
  have r_dead: "startMessageLoop ?n env_S2 9 0 (Some 0) (Some ?hA) (Some ?hB) world_S2
                  = Some (Exited ?dd)"
    using dead_run dead_entry loop_S2_dead dead_after by blast
  have r_dead_plain: "startMessageLoop ?n env_S2 9 0 (Some 0) None (Some ?hB) world_S2
                  = Some (Exited ?dd)"
    using dead_plain dead_entry_none loop_S2_dead dead_after by blast
  have "startMessageLoop ?n env_S2 9 0 (Some 0) (Some ?hA) (Some ?hB) world_S2_alive
          = (case ?hB ?da of (Some e, v3) \<Rightarrow> Some (Threw e v3) | (None, v3) \<Rightarrow> Some (Exited v3))"
    using live_run live_entry loop_S2_entered live_after by blast
  then have r_live: "result_trace (startMessageLoop ?n env_S2 9 0 (Some 0) (Some ?hA) (Some ?hB)
                       world_S2_alive) = Effect 10 # trace_S2 @ [Effect 11]"
    by (simp add: env_S2_def drained_def)
  have r_live_plain: "startMessageLoop ?n env_S2 9 0 (Some 0) (Some ?hA) None world_S2_alive
                        = Some (Exited ?da)"
    using live_run live_entry loop_S2_entered by blast
  have "startMessageLoop ?n env_S2 9 0 (Some 0) None (Some ?hB) (ComponentImpl 0 world0)
          = messageLoop ?n env_S2 0 ?bo"
    using open_run open_entry waits by blast
  then have r_open: "startMessageLoop ?n env_S2 9 0 (Some 0) None (Some ?hB)
                       (ComponentImpl 0 world0) = Some (Waiting ?bo)"
    by (simp only: loop_open)
  have r_throw: "startMessageLoop ?n env_S2 9 0 (Some 0) (Some throwing_hook) (Some ?hB)
                   world_S2_alive = Some (Threw (StdException ''hook'') ?ba)"
    using throw_run thrown by blast
  show ?thesis
    using dead dead_entry loop_S2_dead dead_after r_dead r_dead_plain live live_entry
          loop_S2_entered live_after r_live r_live_plain waits r_open thrown r_throw
    by blast
qed


section \<open>Properties of stop\<close>

lemma decimal_1: "decimal (Suc 0) = ''1''"
  by (simp add: decimal.simps)

text \<open>The world \<open>stop\<close> has made when it reaches the join: the queue closed, the timer
  manager, if any, stopped and released.\<close>

lemma stop_with_manager:
  assumes "timerMgr (impls w this) = Some m"
  shows "Component_stop fuel en caller this w =
           (case workerThread (impls w this) of
              None \<Rightarrow> Some (Exited (reset_timerMgr this (stop_manager m (close_queue this w))))
            | Some wk \<Rightarrow>
                if w_tid wk = caller
                then Some (Exited (reset_timerMgr this (stop_manager m (close_queue this w))))
                else join_worker fuel en this
                       (reset_timerMgr this (stop_manager m (close_queue this w))))"
  using assms
  by (cases "workerThread (impls w this)")
     (auto simp add: Component_stop_def Let_def close_queue_def stop_manager_def
        reset_timerMgr_def)


lemma before_join_facts:
  "trace (reset_timerMgr this (stop_manager m (close_queue this w)))
     = trace w @ [QueueClose this, TimerMgrStop m]"
  "closed (msgQueue (impls (reset_timerMgr this (stop_manager m (close_queue this w))) this))"
  "terminated (tmgrs (reset_timerMgr this (stop_manager m (close_queue this w))) m)"
  "timerMgr (impls (reset_timerMgr this (stop_manager m (close_queue this w))) this) = None"
  "workerThread (impls (reset_timerMgr this (stop_manager m (close_queue this w))) this)
     = workerThread (impls w this)"
  "items (msgQueue (impls (reset_timerMgr this (stop_manager m (close_queue this w))) this))
     = items (msgQueue (impls w this))"
  by (simp_all add: close_queue_def stop_manager_def reset_timerMgr_def MessageQueue_close_def
        TimerManager_stop_def)


text \<open>Joining a worker that has nothing left to do.\<close>

lemma join_idle:
  assumes "workerThread (impls v this) = Some wk" and "w_onExit wk = None"
      and "items (msgQueue (impls v this)) = []" and "closed (msgQueue (impls v this))"
  shows "join_worker (Suc n) en this v =
           Some (Exited (v\<lparr>impls := (impls v)(this := (impls v this)\<lparr>workerThread := None\<rparr>),
                           trace := trace v @ [ThreadJoin (w_tid wk)]\<rparr>))"
  using assms
  by (simp add: join_worker_def loop_then_exit_def MessageQueue_wait_def call_if_alive_None)


text \<open>
  C3 (as stated, refuted). The claim: when a timer manager exists, \<open>stop()\<close> stops the
  timer manager first and closes the queue afterwards. For a component with a timer
  manager and an idle worker thread, stopped from another thread, the calls are: close
  the queue, stop the manager, join the worker; the manager's stop does not precede the
  close.
\<close>

theorem C3_manager_first_counterexample:
  "result_trace (Component_stop (Suc 0) env_S2 1 0 world_tm)
     = [QueueClose 0, TimerMgrStop 5, ThreadJoin 7]
   \<and> \<not> precedes (TimerMgrStop 5) (QueueClose 0)
         (result_trace (Component_stop (Suc 0) env_S2 1 0 world_tm))"
  by (simp add: Component_stop_def world_tm_def world0_def new_impl_def close_queue_def
        stop_manager_def reset_timerMgr_def join_worker_def loop_then_exit_def
        MessageQueue_close_def MessageQueue_wait_def call_if_alive_None Let_def)

text \<open>
  C3 (amended). In \<open>stop()\<close>, the message queue is closed first; when a timer manager
  exists, it is stopped (and released) after the close, and the worker is joined last, if
  at all: the join acts on a world in which the two calls have been made, in this order,
  the queue is closed, the manager is terminated and the component holds no timer manager.
  When the worker has nothing left to do (no queued message, no exit hook), the calls of
  \<open>stop()\<close> are all there is: close, stop of the manager, and the join if the caller is
  not the worker; and \<open>stop()\<close> returns with the queue closed, the manager terminated and
  no timer manager held.
\<close>

theorem C3_queue_closed_before_manager_stopped:
  assumes "timerMgr (impls w this) = Some m"
  shows "\<exists>w2. trace w2 = trace w @ [QueueClose this, TimerMgrStop m]
           \<and> precedes (QueueClose this) (TimerMgrStop m) (drop (length (trace w)) (trace w2))
           \<and> closed (msgQueue (impls w2 this))
           \<and> terminated (tmgrs w2 m)
           \<and> timerMgr (impls w2 this) = None
           \<and> Component_stop fuel en caller this w =
               (case workerThread (impls w this) of
                  None \<Rightarrow> Some (Exited w2)
                | Some wk \<Rightarrow>
                    if w_tid wk = caller then Some (Exited w2)
                    else join_worker fuel en this w2)
           \<and> (items (msgQueue (impls w this)) = []
                \<and> (case workerThread (impls w this) of
                      None \<Rightarrow> True | Some wk \<Rightarrow> w_onExit wk = None)
              \<longrightarrow> result_trace (Component_stop (Suc n) en caller this w) =
                    trace w @ [QueueClose this, TimerMgrStop m]
                      @ (case workerThread (impls w this) of
                           None \<Rightarrow> []
                         | Some wk \<Rightarrow> if w_tid wk = caller then [] else [ThreadJoin (w_tid wk)])
                \<and> Component_stop (Suc n) en caller this w
                    = Some (Exited (result_world (Component_stop (Suc n) en caller this w)))
                \<and> closed (msgQueue (impls
                     (result_world (Component_stop (Suc n) en caller this w)) this))
                \<and> terminated (tmgrs (result_world (Component_stop (Suc n) en caller this w)) m)
                \<and> timerMgr (impls
                     (result_world (Component_stop (Suc n) en caller this w)) this) = None)"
proof -
  let ?w2 = "reset_timerMgr this (stop_manager m (close_queue this w))"
  note facts = before_join_facts [of this m w]
  have order: "precedes (QueueClose this) (TimerMgrStop m)
                 (drop (length (trace w)) (trace ?w2))"
    by (simp add: facts(1))
  have idle: "result_trace (Component_stop (Suc n) en caller this w) =
                    trace w @ [QueueClose this, TimerMgrStop m]
                      @ (case workerThread (impls w this) of
                           None \<Rightarrow> []
                         | Some wk \<Rightarrow> if w_tid wk = caller then [] else [ThreadJoin (w_tid wk)])
                \<and> Component_stop (Suc n) en caller this w
                    = Some (Exited (result_world (Component_stop (Suc n) en caller this w)))
                \<and> closed (msgQueue (impls
                     (result_world (Component_stop (Suc n) en caller this w)) this))
                \<and> terminated (tmgrs (result_world (Component_stop (Suc n) en caller this w)) m)
                \<and> timerMgr (impls
                     (result_world (Component_stop (Suc n) en caller this w)) this) = None"
    if empty: "items (msgQueue (impls w this)) = []"
      and no_hook: "case workerThread (impls w this) of None \<Rightarrow> True | Some wk \<Rightarrow> w_onExit wk = None"
  proof (cases "workerThread (impls w this)")
    case None
    then show ?thesis
      by (simp add: stop_with_manager [OF assms] facts)
  next
    case (Some wk)
    show ?thesis
    proof (cases "w_tid wk = caller")
      case True
      with Some show ?thesis
        by (simp add: stop_with_manager [OF assms] facts)
    next
      case False
      from Some no_hook have hook: "w_onExit wk = None" by simp
      from Some have worker: "workerThread (impls ?w2 this) = Some wk" by (simp add: facts)
      from empty have empty2: "items (msgQueue (impls ?w2 this)) = []" by (simp add: facts)
      note joined = join_idle [OF worker hook empty2 facts(2), of n en]
      from Some False show ?thesis
        by (simp add: stop_with_manager [OF assms] joined facts)
    qed
  qed
  from facts(1) order facts(2) facts(3) facts(4) stop_with_manager [OF assms, of fuel en caller]
       idle
  show ?thesis by blast
qed

theorem C3_queue_closed_before_manager_stopped_witness:
  "timerMgr (impls world_tm 0) = Some 5
   \<and> items (msgQueue (impls world_tm 0)) = []
   \<and> workerThread (impls world_tm 0) = Some \<lparr>w_tid = 7, w_onExit = None\<rparr>
   \<and> result_trace (Component_stop (Suc 0) env_S2 7 0 world_tm) = [QueueClose 0, TimerMgrStop 5]
   \<and> result_trace (Component_stop (Suc 0) env_S2 1 0 world_tm)
       = [QueueClose 0, TimerMgrStop 5, ThreadJoin 7]
   \<and> precedes (QueueClose 0) (TimerMgrStop 5)
       (result_trace (Component_stop (Suc 0) env_S2 7 0 world_tm))
   \<and> closed (msgQueue (impls (result_world (Component_stop (Suc 0) env_S2 1 0 world_tm)) 0))
   \<and> terminated (tmgrs (result_world (Component_stop (Suc 0) env_S2 1 0 world_tm)) 5)
   \<and> timerMgr (impls (result_world (Component_stop (Suc 0) env_S2 1 0 world_tm)) 0) = None"
proof -
  have tm: "timerMgr (impls world_tm 0) = Some 5"
    by (simp add: world_tm_def world0_def new_impl_def)
  have wt: "workerThread (impls world_tm 0) = Some \<lparr>w_tid = 7, w_onExit = None\<rparr>"
    and tr: "trace world_tm = []"
    and empty: "items (msgQueue (impls world_tm 0)) = []"
    by (simp_all add: world_tm_def world0_def new_impl_def)
  from C3_queue_closed_before_manager_stopped [OF tm, of "Suc 0" env_S2 7 0] tm wt tr empty
  have self: "result_trace (Component_stop (Suc 0) env_S2 7 0 world_tm)
                = [QueueClose 0, TimerMgrStop 5]"
    by auto
  from C3_queue_closed_before_manager_stopped [OF tm, of "Suc 0" env_S2 1 0] tm wt tr empty
  have other: "result_trace (Component_stop (Suc 0) env_S2 1 0 world_tm)
                 = [QueueClose 0, TimerMgrStop 5, ThreadJoin 7]
     \<and> closed (msgQueue (impls (result_world (Component_stop (Suc 0) env_S2 1 0 world_tm)) 0))
     \<and> terminated (tmgrs (result_world (Component_stop (Suc 0) env_S2 1 0 world_tm)) 5)
     \<and> timerMgr (impls (result_world (Component_stop (Suc 0) env_S2 1 0 world_tm)) 0) = None"
    by auto
  from self have "precedes (QueueClose 0) (TimerMgrStop 5)
       (result_trace (Component_stop (Suc 0) env_S2 7 0 world_tm))"
    by simp
  with tm wt empty self other show ?thesis by blast
qed














section \<open>Properties of the timer facade\<close>

lemma start_no_component:
  assumes "lock (tlwpInstance w self) w = None"
  shows "Timer_start self this d (Some cb) w
           = w\<lparr>timers := (timers w)(this := (timers w this)\<lparr>t_myMgr := None\<rparr>)\<rparr>"
  using assms by (simp add: Timer_start_def Component_getTimerManager_def)

lemma start_null_callback:
  "Timer_start self this d None w
     = w\<lparr>trace := trace w @ [Log Err ''[Timer]: Please specify not null callback'']\<rparr>"
  by (simp add: Timer_start_def mafErr_def)

lemma world_started_eval:
  "world_started =
     \<lparr>tlwpInstance = (\<lambda>t. None)(1 := Some 0), alive = (\<lambda>c. c = 0),
      impls = (\<lambda>c. new_impl)
        (0 := \<lparr>compref = Some 0, workerThread = None,
               msgQueue = \<lparr>items = [], closed = False\<rparr>,
               msgHandlers = [TimeoutMessage \<mapsto> TimeoutHandler,
                              CallbackExcMsg \<mapsto> CallbackExcHandler],
               timerMgr = Some 0\<rparr>),
      tmgrs = (\<lambda>m. \<lparr>jobs = Map.empty, next_id = 1, terminated = False\<rparr>)
        (0 := \<lparr>jobs = [1 \<mapsto> \<lparr>duration = 100, job_cyclic = False,
                               job_callback = OnTimeout (Some 0) 4 0\<rparr>],
               next_id = 2, terminated = False\<rparr>),
      tm_alloc = 1,
      timers = (\<lambda>t. \<lparr>t_id = 0, t_cyclic = False, t_myMgr = None\<rparr>)
        (0 := \<lparr>t_id = 1, t_cyclic = False, t_myMgr = Some 0\<rparr>),
      trace = [Log Info ''Start new timer with id = 1'']\<rparr>"
  by (simp add: timer_defs decimal_1 numeral_2_eq_2)

text \<open>
  C7 (as stated, refuted). The claim: after \<open>start(duration, callback)\<close> on a thread with
  no active component, \<open>running()\<close> returns false, for every timer and every callback. A
  timer started on the component's thread 1 is running; a call of \<open>start\<close> with a null
  callback on thread 3, whose handle is empty, leaves it running.
\<close>

theorem C7_running_after_start_counterexample:
  "tlwpInstance world_started 3 = None
   \<and> running 0 (Timer_start 3 0 100 None world_started)"
  by (simp add: world_started_eval Timer_start_def mafErr_def running_def isRunning_def)

text \<open>
  C7 (amended). When \<open>start(duration, callback)\<close> is called with a non-null callback on a
  thread whose thread-local handle does not upgrade (it is empty, or its component is
  gone), the only change is that the timer forgets its manager: no manager is created, no
  job is registered, every schedule is as before, and \<open>running()\<close> then returns false.
  With a null callback the call writes one error line and changes nothing else, so
  \<open>running()\<close> returns what it returned before the call.
\<close>

theorem C7_start_without_component:
  assumes "lock (tlwpInstance w self) w = None"
  shows "Timer_start self this d (Some cb) w
           = w\<lparr>timers := (timers w)(this := (timers w this)\<lparr>t_myMgr := None\<rparr>)\<rparr>
       \<and> tmgrs (Timer_start self this d (Some cb) w) = tmgrs w
       \<and> \<not> running this (Timer_start self this d (Some cb) w)
       \<and> Timer_start self this d None w
           = w\<lparr>trace := trace w @ [Log Err ''[Timer]: Please specify not null callback'']\<rparr>
       \<and> tmgrs (Timer_start self this d None w) = tmgrs w
       \<and> running this (Timer_start self this d None w) = running this w"
  by (simp add: start_no_component [OF assms] start_null_callback running_def
        split: option.split)

theorem C7_start_without_component_witness:
  "lock (tlwpInstance world_started 3) world_started = None
   \<and> tmgrs (Timer_start 3 0 100 (Some 4) world_started) = tmgrs world_started
   \<and> jobs (tmgrs (Timer_start 3 0 100 (Some 4) world_started) 0) 1
       = Some \<lparr>duration = 100, job_cyclic = False, job_callback = OnTimeout (Some 0) 4 0\<rparr>
   \<and> \<not> running 0 (Timer_start 3 0 100 (Some 4) world_started)
   \<and> running 0 world_started
   \<and> running 0 (Timer_start 3 0 100 None world_started)"
proof -
  have bare: "lock (tlwpInstance world_started 3) world_started = None"
    by (simp add: world_started_eval lock_def)
  have job: "jobs (tmgrs world_started 0) 1
       = Some \<lparr>duration = 100, job_cyclic = False, job_callback = OnTimeout (Some 0) 4 0\<rparr>"
    by (simp add: world_started_eval)
  have before: "running 0 world_started"
    by (simp add: world_started_eval running_def isRunning_def)
  note inst = C7_start_without_component [OF bare, of 0 100 4]
  from inst have same: "tmgrs (Timer_start 3 0 100 (Some 4) world_started) = tmgrs world_started"
    by blast
  from inst have idle: "\<not> running 0 (Timer_start 3 0 100 (Some 4) world_started)"
    by blast
  from inst have kept: "running 0 (Timer_start 3 0 100 None world_started) = running 0 world_started"
    by blast
  from same job have "jobs (tmgrs (Timer_start 3 0 100 (Some 4) world_started) 0) 1
       = Some \<lparr>duration = 100, job_cyclic = False, job_callback = OnTimeout (Some 0) 4 0\<rparr>"
    by simp
  with bare same idle before kept show ?thesis by blast
qed

lemma expire_absent:
  "terminated (tmgrs w m) \<or> jobs (tmgrs w m) j = None \<Longrightarrow> expire f m j w = (None, w)"
  by (auto simp add: expire_def)

lemma postMessage_queue:
  "\<exists>w' posted. postMessage f c (Some msg) w = (None, w')
     \<and> timers w' = timers w \<and> tmgrs w' = tmgrs w \<and> alive w' = alive w
     \<and> items (msgQueue (impls w' c)) = items (msgQueue (impls w c)) @ posted
     \<and> (posted = [] \<or> posted = [Some msg])"
  by (cases f)
     (simp_all add: postMessage_cases queue_push_def MessageQueue_push_def mafErr_def)

lemma onTimeout_one_shot:
  assumes "\<not> t_cyclic (timers w t)"
  shows "\<exists>w' posted. onTimeout f (Some c) cb t w = (None, w')
     \<and> t_id (timers w' t) = invalidJobID \<and> tmgrs w' = tmgrs w
     \<and> items (msgQueue (impls w' c)) = items (msgQueue (impls w c)) @ posted
     \<and> (posted = [] \<or> posted = [Some (TimeoutMsg (t_id (timers w t)) (Some cb))])"
proof (cases "alive w c")
  case True
  obtain w' posted where p: "postMessage f c (Some (TimeoutMsg (t_id (timers w t)) (Some cb))) w = (None, w')"
     "timers w' = timers w" "tmgrs w' = tmgrs w"
     "items (msgQueue (impls w' c)) = items (msgQueue (impls w c)) @ posted"
     "posted = [] \<or> posted = [Some (TimeoutMsg (t_id (timers w t)) (Some cb))]"
    using postMessage_queue [of f c "TimeoutMsg (t_id (timers w t)) (Some cb)" w] by blast
  with True assms show ?thesis
    by (simp add: onTimeout_def lock_def)
next
  case False
  with assms show ?thesis
    by (cases "t_myMgr (timers w t)") (simp_all add: onTimeout_def lock_def)
qed

lemma start_registers:
  assumes active: "lock (tlwpInstance w self) w = Some c"
      and one_shot: "\<not> t_cyclic (timers w t)"
  shows "\<exists>m. t_myMgr (timers (Timer_start self t d (Some cb) w) t) = Some m
           \<and> \<not> t_cyclic (timers (Timer_start self t d (Some cb) w) t)
           \<and> (if terminated (tmgrs (Timer_start self t d (Some cb) w) m)
              then t_id (timers (Timer_start self t d (Some cb) w) t) = invalidJobID
              else jobs (tmgrs (Timer_start self t d (Some cb) w) m)
                     (t_id (timers (Timer_start self t d (Some cb) w) t))
                   = Some \<lparr>duration = d, job_cyclic = False,
                           job_callback = OnTimeout (Some c) cb t\<rparr>)"
proof -
  from active have handle: "tlwpInstance w self = Some c"
    by (cases "tlwpInstance w self") (simp_all add: lock_def split: if_splits)
  show ?thesis
  proof (cases "timerMgr (impls w c)")
    case None
    with active one_shot handle show ?thesis
      by (simp add: Timer_start_def Component_getTimerManager_def getTimerManager_def
            running_def isRunning_def TimerManager_new_def TimerManager_start_def
            getActiveWeakPtr_def mafInfo_def Let_def)
  next
    case (Some m)
    show ?thesis
    proof (cases "terminated (tmgrs w m)")
      case True
      with Some active one_shot handle show ?thesis
        by (simp add: Timer_start_def Component_getTimerManager_def getTimerManager_def
              running_def Timer_stop_def stop_job_def TimerManager_stop_job_def TimerManager_start_def
              getActiveWeakPtr_def mafInfo_def Let_def)
    next
      case False
      with Some active one_shot handle show ?thesis
        by (simp add: Timer_start_def Component_getTimerManager_def getTimerManager_def
              running_def Timer_stop_def stop_job_def TimerManager_stop_job_def TimerManager_start_def
              getActiveWeakPtr_def mafInfo_def Let_def)
    qed
  qed
qed

lemma dispatch_timeout:
  assumes "findHandler c TimeoutMessage v = Some TimeoutHandler"
  shows "dispatch en c (Some (TimeoutMsg j (Some cb))) v =
           (case callFn en cb v of
              (None, v') \<Rightarrow> (None, v')
            | (Some e, v') \<Rightarrow> (None, v'\<lparr>trace := trace v' @ [Log Err (handler_error_text e)]\<rparr>))"
proof -
  obtain r v' where call: "callFn en cb v = (r, v')" by (cases "callFn en cb v")
  from assms have found: "findHandler c (idof (TimeoutMsg j (Some cb))) v = Some TimeoutHandler"
    by simp
  show ?thesis
  proof (cases r)
    case None
    with call have "invoke en TimeoutHandler (TimeoutMsg j (Some cb)) v = (None, v')"
      by (simp add: execute_def)
    from dispatch_returning [OF found this] call None show ?thesis by simp
  next
    case (Some e)
    with call have "invoke en TimeoutHandler (TimeoutMsg j (Some cb)) v = (Some e, v')"
      by (simp add: execute_def)
    from dispatch_throwing [OF found this] call Some show ?thesis by (simp add: mafErr_def)
  qed
qed

text \<open>
  C8. A timer with \<open>cyclic = false\<close> is started on a thread with an active component \<open>c\<close>;
  let \<open>m\<close> be the manager and \<open>j\<close> the job id it holds afterwards. Take any later world in
  which the timer, the job \<open>j\<close> of \<open>m\<close> and the running state of \<open>m\<close> are as \<open>start\<close> left
  them; everything else may have changed: other jobs of the same manager started, stopped
  or expired, queues, liveness of components. Let \<open>push\<close> behave in any way. The expiry of
  \<open>j\<close> runs the marshalling callback, which completes normally, posts at most one
  \<open>TimeoutMessage\<close> carrying the user callback to the queue of \<open>c\<close> and leaves the timer's
  id invalid; a second expiry of \<open>j\<close> does nothing, since the one-shot job is no longer
  scheduled. When the loop of a component with the built-in handler takes that message
  from the queue, it calls the user callback exactly once (and logs what the callback
  throws). So the user callback runs at most once.
\<close>

theorem C8_one_shot_at_most_once:
  assumes active: "lock (tlwpInstance w self) w = Some c"
      and one_shot: "\<not> t_cyclic (timers w t)"
      and mgr: "t_myMgr (timers (Timer_start self t d (Some cb) w) t) = Some m"
      and same_job: "jobs (tmgrs w' m) (t_id (timers (Timer_start self t d (Some cb) w) t))
                       = jobs (tmgrs (Timer_start self t d (Some cb) w) m)
                           (t_id (timers (Timer_start self t d (Some cb) w) t))"
      and same_state: "terminated (tmgrs w' m)
                         = terminated (tmgrs (Timer_start self t d (Some cb) w) m)"
      and same_timer: "timers w' t = timers (Timer_start self t d (Some cb) w) t"
  shows "(\<exists>w2 posted.
           expire f1 m (t_id (timers (Timer_start self t d (Some cb) w) t)) w' = (None, w2)
         \<and> t_id (timers w2 t) = invalidJobID
         \<and> expire f2 m (t_id (timers (Timer_start self t d (Some cb) w) t)) w2 = (None, w2)
         \<and> items (msgQueue (impls w2 c)) = items (msgQueue (impls w' c)) @ posted
         \<and> (posted = [] \<or>
              posted = [Some (TimeoutMsg (t_id (timers (Timer_start self t d (Some cb) w) t))
                                (Some cb))])
         \<and> timeout_posts cb c w2 \<le> Suc (timeout_posts cb c w'))
       \<and> (findHandler c TimeoutMessage v = Some TimeoutHandler \<longrightarrow>
            dispatch en c
              (Some (TimeoutMsg (t_id (timers (Timer_start self t d (Some cb) w) t)) (Some cb))) v
            = (case callFn en cb v of
                 (None, v') \<Rightarrow> (None, v')
               | (Some e, v') \<Rightarrow>
                   (None, v'\<lparr>trace := trace v' @ [Log Err (handler_error_text e)]\<rparr>)))"
proof -
  let ?w1 = "Timer_start self t d (Some cb) w"
  let ?j = "t_id (timers ?w1 t)"
  from start_registers [OF active one_shot, of d cb] mgr
  have still_one_shot: "\<not> t_cyclic (timers ?w1 t)"
    and job: "if terminated (tmgrs ?w1 m) then ?j = invalidJobID
              else jobs (tmgrs ?w1 m) ?j
                   = Some \<lparr>duration = d, job_cyclic = False,
                           job_callback = OnTimeout (Some c) cb t\<rparr>"
    by auto
  have expiry: "\<exists>w2 posted.
           expire f1 m ?j w' = (None, w2)
         \<and> t_id (timers w2 t) = invalidJobID
         \<and> expire f2 m ?j w2 = (None, w2)
         \<and> items (msgQueue (impls w2 c)) = items (msgQueue (impls w' c)) @ posted
         \<and> (posted = [] \<or> posted = [Some (TimeoutMsg ?j (Some cb))])
         \<and> timeout_posts cb c w2 \<le> Suc (timeout_posts cb c w')"
  proof (cases "terminated (tmgrs ?w1 m)")
    case True
    with job have invalid: "?j = invalidJobID" by simp
    from True same_state
    have "expire f1 m ?j w' = (None, w')" and "expire f2 m ?j w' = (None, w')"
      by (simp_all add: expire_def)
    moreover from invalid same_timer have "t_id (timers w' t) = invalidJobID" by simp
    moreover have "items (msgQueue (impls w' c)) = items (msgQueue (impls w' c)) @ []" by simp
    moreover have "timeout_posts cb c w' \<le> Suc (timeout_posts cb c w')" by simp
    ultimately show ?thesis by blast
  next
    case False
    with job have present: "jobs (tmgrs ?w1 m) ?j
        = Some \<lparr>duration = d, job_cyclic = False, job_callback = OnTimeout (Some c) cb t\<rparr>"
      by simp
    let ?wr = "w'\<lparr>tmgrs := (tmgrs w')
                 (m := (tmgrs w' m)\<lparr>jobs := (jobs (tmgrs w' m))(?j := None)\<rparr>)\<rparr>"
    from False present same_job same_state
    have fire: "expire f1 m ?j w' = onTimeout f1 (Some c) cb t ?wr"
      by (simp add: expire_def run_job_callback_def)
    from still_one_shot same_timer have "\<not> t_cyclic (timers ?wr t)" by simp
    from onTimeout_one_shot [OF this, of f1 c cb]
    obtain w2 posted where run: "onTimeout f1 (Some c) cb t ?wr = (None, w2)"
      and invalid: "t_id (timers w2 t) = invalidJobID"
      and managers: "tmgrs w2 = tmgrs ?wr"
      and queue: "items (msgQueue (impls w2 c)) = items (msgQueue (impls ?wr c)) @ posted"
      and posted: "posted = [] \<or> posted = [Some (TimeoutMsg (t_id (timers ?wr t)) (Some cb))]"
      by blast
    from managers have gone: "jobs (tmgrs w2 m) ?j = None" by simp
    then have again: "expire f2 m ?j w2 = (None, w2)" by (simp add: expire_absent)
    from queue have queue': "items (msgQueue (impls w2 c)) = items (msgQueue (impls w' c)) @ posted"
      by simp
    from posted same_timer
    have posted': "posted = [] \<or> posted = [Some (TimeoutMsg ?j (Some cb))]" by simp
    from queue' posted' have count: "timeout_posts cb c w2 \<le> Suc (timeout_posts cb c w')"
      by (auto simp add: timeout_posts_def)
    from fire run invalid again queue' posted' count show ?thesis by metis
  qed
  from expiry dispatch_timeout [of c v en ?j cb] show ?thesis by blast
qed

text \<open>The scenario: the timer 0 is started, then a second timer 1 on the same thread and
  so with the same manager; the job of timer 0 expires, a second expiry is attempted, the
  queue is closed and the loop runs: the user callback (whose effect is \<open>Effect 4\<close>) has run
  once.\<close>

lemma decimal_2: "decimal (Suc (Suc 0)) = ''2''"
  by (simp add: decimal.simps)

lemma world_two_timers_eval:
  "Timer_start 1 1 50 (Some 6) world_started =
     \<lparr>tlwpInstance = (\<lambda>t. None)(1 := Some 0), alive = (\<lambda>c. c = 0),
      impls = (\<lambda>c. new_impl)
        (0 := \<lparr>compref = Some 0, workerThread = None,
               msgQueue = \<lparr>items = [], closed = False\<rparr>,
               msgHandlers = [TimeoutMessage \<mapsto> TimeoutHandler,
                              CallbackExcMsg \<mapsto> CallbackExcHandler],
               timerMgr = Some 0\<rparr>),
      tmgrs = (\<lambda>m. \<lparr>jobs = Map.empty, next_id = 1, terminated = False\<rparr>)
        (0 := \<lparr>jobs = [1 \<mapsto> \<lparr>duration = 100, job_cyclic = False,
                               job_callback = OnTimeout (Some 0) 4 0\<rparr>,
                        2 \<mapsto> \<lparr>duration = 50, job_cyclic = False,
                               job_callback = OnTimeout (Some 0) 6 1\<rparr>],
               next_id = 3, terminated = False\<rparr>),
      tm_alloc = 1,
      timers = (\<lambda>t. \<lparr>t_id = 0, t_cyclic = False, t_myMgr = None\<rparr>)
        (0 := \<lparr>t_id = 1, t_cyclic = False, t_myMgr = Some 0\<rparr>,
         1 := \<lparr>t_id = 2, t_cyclic = False, t_myMgr = Some 0\<rparr>),
      trace = [Log Info ''Start new timer with id = 1'',
               Log Info ''Start new timer with id = 2'']\<rparr>"
  unfolding world_started_eval
  by (simp add: Timer_start_def Component_getTimerManager_def getTimerManager_def lock_def
        running_def isRunning_def TimerManager_start_def getActiveWeakPtr_def mafInfo_def
        Let_def decimal_2 numeral_2_eq_2 numeral_3_eq_3)

theorem C8_one_shot_at_most_once_witness:
  "lock (tlwpInstance world_active 1) world_active = Some 0
   \<and> \<not> t_cyclic (timers world_active 0)
   \<and> t_myMgr (timers (Timer_start 1 0 100 (Some 4) world_active) 0) = Some 0
   \<and> t_id (timers (Timer_start 1 0 100 (Some 4) world_active) 0) = 1
   \<and> jobs (tmgrs (Timer_start 1 1 50 (Some 6) world_started) 0) 1
       = jobs (tmgrs (Timer_start 1 0 100 (Some 4) world_active) 0) 1
   \<and> terminated (tmgrs (Timer_start 1 1 50 (Some 6) world_started) 0)
       = terminated (tmgrs (Timer_start 1 0 100 (Some 4) world_active) 0)
   \<and> timers (Timer_start 1 1 50 (Some 6) world_started) 0
       = timers (Timer_start 1 0 100 (Some 4) world_active) 0
   \<and> tmgrs (Timer_start 1 1 50 (Some 6) world_started) 0
       \<noteq> tmgrs (Timer_start 1 0 100 (Some 4) world_active) 0
   \<and> (\<exists>w2 posted.
         expire None 0 1 (Timer_start 1 1 50 (Some 6) world_started) = (None, w2)
       \<and> t_id (timers w2 0) = invalidJobID
       \<and> expire None 0 1 w2 = (None, w2)
       \<and> items (msgQueue (impls w2 0))
           = items (msgQueue (impls (Timer_start 1 1 50 (Some 6) world_started) 0)) @ posted
       \<and> (posted = [] \<or> posted = [Some (TimeoutMsg 1 (Some 4))])
       \<and> timeout_posts 4 0 w2
           \<le> Suc (timeout_posts 4 0 (Timer_start 1 1 50 (Some 6) world_started)))
   \<and> findHandler 0 TimeoutMessage world_started = Some TimeoutHandler
   \<and> dispatch env_S2 0 (Some (TimeoutMsg 1 (Some 4))) world_started
       = (None, world_started\<lparr>trace := trace world_started @ [Effect 4]\<rparr>)
   \<and> result_trace (messageLoop (Suc (Suc 0)) env_S2 0
        (close_queue 0 (snd (expire None 0 1 (snd (expire None 0 1
           (Timer_start 1 1 50 (Some 6) world_started)))))))
       = [Log Info ''Start new timer with id = 1'', Log Info ''Start new timer with id = 2'',
          QueueClose 0, Effect 4]"
proof -
  let ?w' = "Timer_start 1 1 50 (Some 6) world_started"
  have active: "lock (tlwpInstance world_active 1) world_active = Some 0"
    by (simp add: timer_defs)
  have one_shot: "\<not> t_cyclic (timers world_active 0)"
    by (simp add: timer_defs)
  have started: "Timer_start 1 0 100 (Some 4) world_active = world_started"
    by (simp add: world_started_def)
  have mgr: "t_myMgr (timers (Timer_start 1 0 100 (Some 4) world_active) 0) = Some 0"
    and jid: "t_id (timers (Timer_start 1 0 100 (Some 4) world_active) 0) = 1"
    unfolding started by (simp_all add: world_started_eval)
  have same_job: "jobs (tmgrs ?w' 0) (t_id (timers (Timer_start 1 0 100 (Some 4) world_active) 0))
                    = jobs (tmgrs (Timer_start 1 0 100 (Some 4) world_active) 0)
                        (t_id (timers (Timer_start 1 0 100 (Some 4) world_active) 0))"
    and same_state: "terminated (tmgrs ?w' 0)
                       = terminated (tmgrs (Timer_start 1 0 100 (Some 4) world_active) 0)"
    and same_timer: "timers ?w' 0 = timers (Timer_start 1 0 100 (Some 4) world_active) 0"
    unfolding started world_two_timers_eval
    by (simp_all add: world_started_eval)
  have changed: "tmgrs ?w' 0 \<noteq> tmgrs (Timer_start 1 0 100 (Some 4) world_active) 0"
    unfolding started world_two_timers_eval by (simp add: world_started_eval)
  have handler: "findHandler 0 TimeoutMessage world_started = Some TimeoutHandler"
    by (simp add: world_started_eval findHandler_def)
  have run: "result_trace (messageLoop (Suc (Suc 0)) env_S2 0
        (close_queue 0 (snd (expire None 0 1 (snd (expire None 0 1 ?w'))))))
       = [Log Info ''Start new timer with id = 1'', Log Info ''Start new timer with id = 2'',
          QueueClose 0, Effect 4]"
    unfolding world_two_timers_eval
    by (simp add: expire_def run_job_callback_def onTimeout_def lock_def
          postMessage_cases queue_push_def MessageQueue_push_def close_queue_def
          MessageQueue_close_def MessageQueue_wait_def set_queue_def dispatch_def
          findHandler_def try_catch_def execute_def env_S2_def)
  note inst = C8_one_shot_at_most_once
                [OF active one_shot mgr same_job same_state same_timer,
                 of None None world_started env_S2]
  from inst handler
  have "dispatch env_S2 0
          (Some (TimeoutMsg (t_id (timers (Timer_start 1 0 100 (Some 4) world_active) 0))
                   (Some 4))) world_started
        = (case callFn env_S2 4 world_started of
             (None, v') \<Rightarrow> (None, v')
           | (Some e, v') \<Rightarrow>
               (None, v'\<lparr>trace := trace v' @ [Log Err (handler_error_text e)]\<rparr>))"
    by blast
  then have "dispatch env_S2 0 (Some (TimeoutMsg 1 (Some 4))) world_started
        = (case callFn env_S2 4 world_started of
             (None, v') \<Rightarrow> (None, v')
           | (Some e, v') \<Rightarrow>
               (None, v'\<lparr>trace := trace v' @ [Log Err (handler_error_text e)]\<rparr>))"
    by (simp only: jid)
  moreover have "callFn env_S2 4 world_started
                   = (None, world_started\<lparr>trace := trace world_started @ [Effect 4]\<rparr>)"
    by (simp add: env_S2_def)
  ultimately have called: "dispatch env_S2 0 (Some (TimeoutMsg 1 (Some 4))) world_started
       = (None, world_started\<lparr>trace := trace world_started @ [Effect 4]\<rparr>)"
    by simp
  from inst have "\<exists>w2 posted.
         expire None 0 (t_id (timers (Timer_start 1 0 100 (Some 4) world_active) 0)) ?w'
           = (None, w2)
       \<and> t_id (timers w2 0) = invalidJobID
       \<and> expire None 0 (t_id (timers (Timer_start 1 0 100 (Some 4) world_active) 0)) w2
           = (None, w2)
       \<and> items (msgQueue (impls w2 0)) = items (msgQueue (impls ?w' 0)) @ posted
       \<and> (posted = [] \<or>
            posted = [Some (TimeoutMsg
                       (t_id (timers (Timer_start 1 0 100 (Some 4) world_active) 0)) (Some 4))])
       \<and> timeout_posts 4 0 w2 \<le> Suc (timeout_posts 4 0 ?w')"
    by blast
  then have fired: "\<exists>w2 posted.
         expire None 0 1 ?w' = (None, w2)
       \<and> t_id (timers w2 0) = invalidJobID
       \<and> expire None 0 1 w2 = (None, w2)
       \<and> items (msgQueue (impls w2 0)) = items (msgQueue (impls ?w' 0)) @ posted
       \<and> (posted = [] \<or> posted = [Some (TimeoutMsg 1 (Some 4))])
       \<and> timeout_posts 4 0 w2 \<le> Suc (timeout_posts 4 0 ?w')"
    by (simp only: jid)
  from same_job same_state same_timer
  have frame: "jobs (tmgrs ?w' 0) 1 = jobs (tmgrs (Timer_start 1 0 100 (Some 4) world_active) 0) 1"
    by (simp only: jid)
  from active one_shot mgr jid frame same_state same_timer changed fired handler called run
  show ?thesis by blast
qed

section \<open>Properties of the named pipe sender\<close>

text \<open>
  C10. \<open>initConnection(addr)\<close> leaves the sender as it is when \<open>addr\<close> is the invalid
  address or equals the current receiver address; otherwise the receiver address becomes
  \<open>addr\<close> and the pipe name becomes \<open>constructPipeName(addr)\<close>.
\<close>

theorem C10_initConnection_frame:
  "(addr = INVALID_ADDRESS \<or> receiverAddress s = addr
      \<longrightarrow> initConnection INVALID_ADDRESS constructPipeName addr s = s)
   \<and> (addr \<noteq> INVALID_ADDRESS \<and> receiverAddress s \<noteq> addr
      \<longrightarrow> receiverAddress (initConnection INVALID_ADDRESS constructPipeName addr s) = addr
        \<and> pipeName (initConnection INVALID_ADDRESS constructPipeName addr s)
            = constructPipeName addr)"
  by (auto simp add: initConnection_def)

theorem C10_initConnection_frame_witness:
  "initConnection ''invalid'' (\<lambda>a. ''pipe.'' @ a) ''invalid''
       \<lparr>pipeName = ''pipe.srv'', receiverAddress = ''srv''\<rparr>
     = \<lparr>pipeName = ''pipe.srv'', receiverAddress = ''srv''\<rparr>
   \<and> initConnection ''invalid'' (\<lambda>a. ''pipe.'' @ a) ''srv''
       \<lparr>pipeName = ''pipe.srv'', receiverAddress = ''srv''\<rparr>
     = \<lparr>pipeName = ''pipe.srv'', receiverAddress = ''srv''\<rparr>
   \<and> receiverAddress (initConnection ''invalid'' (\<lambda>a. ''pipe.'' @ a) ''cli''
       \<lparr>pipeName = ''pipe.srv'', receiverAddress = ''srv''\<rparr>) = ''cli''
   \<and> pipeName (initConnection ''invalid'' (\<lambda>a. ''pipe.'' @ a) ''cli''
       \<lparr>pipeName = ''pipe.srv'', receiverAddress = ''srv''\<rparr>) = ''pipe.cli''"
  using C10_initConnection_frame
          [of "''invalid''" "''invalid''" "\<lparr>pipeName = ''pipe.srv'', receiverAddress = ''srv''\<rparr>"
              "\<lambda>a. ''pipe.'' @ a"]
        C10_initConnection_frame
          [of "''srv''" "''invalid''" "\<lparr>pipeName = ''pipe.srv'', receiverAddress = ''srv''\<rparr>"
              "\<lambda>a. ''pipe.'' @ a"]
        C10_initConnection_frame
          [of "''cli''" "''invalid''" "\<lparr>pipeName = ''pipe.srv'', receiverAddress = ''srv''\<rparr>"
              "\<lambda>a. ''pipe.'' @ a"]
  by simp

end
